theory Spec2Isabelle
  imports Main
begin

section \<open>Python values shared by the modules\<close>

text \<open>
  The utility modules raise Python exceptions and write to the loguru logger. An exception is
  a value here; a raise is the \<open>Inl\<close> branch of a sum. Python strings are modelled as
  lists of 8-bit characters, one \<open>char\<close> per code point, which covers every string the
  fixed formats and the identity rule below distinguish.
\<close>

datatype py_error =
    ValueError string
  | TypeError string
  | AttributeError string
  | OverflowError string
  | ParserError string

datatype log_level = Debug | Info | Success | Warning | Error

type_synonym log_record = "log_level \<times> string"

text \<open>\<open>str.lower()\<close> and \<open>str.upper()\<close> on the ASCII letters.\<close>

definition lower_char :: "char \<Rightarrow> char" where
  "lower_char c = (let n = (of_char c :: nat) in if 65 \<le> n \<and> n \<le> 90 then char_of (n + 32) else c)"

definition upper_char :: "char \<Rightarrow> char" where
  "upper_char c = (let n = (of_char c :: nat) in if 97 \<le> n \<and> n \<le> 122 then char_of (n - 32) else c)"

definition lower :: "string \<Rightarrow> string" where
  "lower s = map lower_char s"

definition upper :: "string \<Rightarrow> string" where
  "upper s = map upper_char s"

text \<open>\<open>s.startswith(p)\<close>.\<close>

definition startswith :: "string \<Rightarrow> string \<Rightarrow> bool" where
  "startswith s p = (take (length p) s = p)"


section \<open>Access gate (\<open>api/utils/auth.py\<close>)\<close>

text \<open>
  What a request lets the gate see: the process environment (\<open>os.environ\<close>), the WSGI
  environment of the request (\<open>request.environ\<close>), the host name (\<open>platform.node()\<close>) and
  the cookies of the request.
\<close>

record request_context =
  os_environ :: "string \<rightharpoonup> string"
  request_environ :: "string \<rightharpoonup> string"
  node :: string
  cookies :: "string \<rightharpoonup> string"

text \<open>\<open>d.get(k, default)\<close>.\<close>

definition get_default :: "(string \<rightharpoonup> string) \<Rightarrow> string \<Rightarrow> string \<Rightarrow> string" where
  "get_default d k dflt = (case d k of None \<Rightarrow> dflt | Some v \<Rightarrow> v)"

definition is_development_environment :: "request_context \<Rightarrow> bool" where
  "is_development_environment ctx =
     (if os_environ ctx ''DATA_SOURCE_MODE'' = Some ''dummy''
         \<and> get_default (request_environ ctx) ''REMOTE_ADDR'' '''' \<in> set [''127.0.0.1'', ''localhost'', ''::1'']
      then True
      else if startswith (upper (node ctx)) ''DESKTOP'' then True
      else if os_environ ctx ''FLASK_ENV'' = Some ''development''
              \<or> os_environ ctx ''FLASK_DEBUG'' = Some ''1'' then True
      else False)"

text \<open>The argument is \<open>None\<close> or a string; \<open>not user_id\<close> holds for \<open>None\<close> and for \<open>''\<close>.\<close>

definition is_restricted_user :: "string option \<Rightarrow> bool" where
  "is_restricted_user user_id =
     (case user_id of
        None \<Rightarrow> False
      | Some u \<Rightarrow> if u = [] then False else startswith (lower u) ''x'')"

definition get_user_from_cookie :: "request_context \<Rightarrow> string option" where
  "get_user_from_cookie ctx = cookies ctx ''LASTUSER''"

text \<open>
  The decision, with the records the function writes to the logger on its way. The
  identity of the decision is \<open>None\<close> or a string.
\<close>

definition check_user_access :: "request_context \<Rightarrow> (bool \<times> string option) \<times> log_record list" where
  "check_user_access ctx =
     (if is_development_environment ctx
      then ((True, Some ''dev_user''),
            [(Info, ''Development environment detected - bypassing authentication'')])
      else
        (case get_user_from_cookie ctx of
           None \<Rightarrow> ((False, None), [(Warning, ''No LASTUSER cookie found in request'')])
         | Some user_id \<Rightarrow>
             if user_id = []
             then ((False, None), [(Warning, ''No LASTUSER cookie found in request'')])
             else
               (let has_access = \<not> is_restricted_user (Some user_id) in
                ((has_access, Some user_id),
                 (if \<not> has_access
                  then [(Info, ''Access denied for restricted user: '' @ user_id)]
                  else [])))))"

text \<open>
  The decorator: a denial answers with the fixed body and status 403, an allowance runs the
  handler; the identity is dropped.
\<close>

datatype 'a response = Denied string string nat | Handled 'a

definition require_access :: "(unit \<Rightarrow> 'a) \<Rightarrow> request_context \<Rightarrow> 'a response" where
  "require_access f ctx =
     (let (has_access, user_id) = fst (check_user_access ctx) in
      if \<not> has_access
      then Denied ''Access denied'' ''You do not have permission to access this resource'' 403
      else Handled (f ()))"



text \<open>The request of a production host whose \<open>LASTUSER\<close> cookie is the empty string.\<close>

definition empty_cookie_request :: request_context where
  "empty_cookie_request =
     \<lparr>os_environ = Map.empty, request_environ = [''REMOTE_ADDR'' \<mapsto> ''10.0.0.7''],
      node = ''web01'', cookies = [''LASTUSER'' \<mapsto> '''']\<rparr>"






section \<open>Regular expressions (the fragment of \<open>re\<close> the modules use)\<close>

text \<open>
  Python's \<open>re\<close> is a backtracking matcher: alternatives are tried from left to right, a
  quantifier takes as many characters as it can and gives them back one at a time. The
  matcher below lists every way a pattern matches a prefix of the text, in that order of
  preference; \<open>re.match\<close> is the first of them.
\<close>

datatype char_class = Digit | Space | Chr char | Rng char char

definition is_digit :: "char \<Rightarrow> bool" where
  "is_digit c = (48 \<le> (of_char c :: nat) \<and> (of_char c :: nat) \<le> 57)"

text \<open>\<open>\s\<close> and \<open>str.isspace\<close> agree on the code points below 256.\<close>

definition is_space :: "char \<Rightarrow> bool" where
  "is_space c = ((of_char c :: nat) \<in> set [9, 10, 11, 12, 13, 28, 29, 30, 31, 32, 133, 160])"

fun in_class :: "char_class \<Rightarrow> char \<Rightarrow> bool" where
  "in_class Digit c = is_digit c"
| "in_class Space c = is_space c"
| "in_class (Chr a) c = (c = a)"
| "in_class (Rng a b) c = ((of_char a :: nat) \<le> of_char c \<and> (of_char c :: nat) \<le> of_char b)"

datatype regex =
    One char_class
  | Plus char_class
  | Star char_class
  | Opt char_class
  | Seq "regex list"
  | Alt "regex list"
  | Group string regex

type_synonym groups = "(string \<times> string) list"

text \<open>What is left of the text after \<open>k*\<close>, the longest run first.\<close>

fun repeats :: "char_class \<Rightarrow> string \<Rightarrow> string list" where
  "repeats k [] = [[]]"
| "repeats k (c # cs) = (if in_class k c then repeats k cs @ [c # cs] else [c # cs])"

fun rmatch :: "regex \<Rightarrow> string \<Rightarrow> groups \<Rightarrow> (string \<times> groups) list"
  and rmatch_seq :: "regex list \<Rightarrow> string \<Rightarrow> groups \<Rightarrow> (string \<times> groups) list"
  and rmatch_alt :: "regex list \<Rightarrow> string \<Rightarrow> groups \<Rightarrow> (string \<times> groups) list"
where
  "rmatch (One k) s g = (case s of [] \<Rightarrow> [] | c # cs \<Rightarrow> if in_class k c then [(cs, g)] else [])"
| "rmatch (Plus k) s g =
     (case s of [] \<Rightarrow> [] | c # cs \<Rightarrow> if in_class k c then map (\<lambda>rest. (rest, g)) (repeats k cs) else [])"
| "rmatch (Star k) s g = map (\<lambda>rest. (rest, g)) (repeats k s)"
| "rmatch (Opt k) s g =
     (case s of [] \<Rightarrow> [([], g)] | c # cs \<Rightarrow> if in_class k c then [(cs, g), (s, g)] else [(s, g)])"
| "rmatch (Seq rs) s g = rmatch_seq rs s g"
| "rmatch (Alt rs) s g = rmatch_alt rs s g"
| "rmatch (Group name r) s g =
     map (\<lambda>(rest, g'). (rest, (name, take (length s - length rest) s) # g')) (rmatch r s g)"
| "rmatch_seq [] s g = [(s, g)]"
| "rmatch_seq (r # rs) s g = concat (map (\<lambda>(rest, g'). rmatch_seq rs rest g') (rmatch r s g))"
| "rmatch_alt [] s g = []"
| "rmatch_alt (r # rs) s g = rmatch r s g @ rmatch_alt rs s g"

text \<open>\<open>re.match\<close>: the preferred match at the start of the text, if there is one.\<close>

definition re_match :: "regex \<Rightarrow> string \<Rightarrow> (string \<times> groups) option" where
  "re_match r s = (case rmatch r s [] of [] \<Rightarrow> None | m # _ \<Rightarrow> Some m)"

text \<open>\<open>re.search\<close>: the preferred match at the leftmost position that has one.\<close>

fun re_search :: "regex \<Rightarrow> string \<Rightarrow> (string \<times> groups) option" where
  "re_search r [] = re_match r []"
| "re_search r (c # cs) = (case re_match r (c # cs) of Some m \<Rightarrow> Some m | None \<Rightarrow> re_search r cs)"

text \<open>The shortest text a pattern can match.\<close>

fun min_len :: "regex \<Rightarrow> nat"
  and min_len_seq :: "regex list \<Rightarrow> nat"
  and min_len_alt :: "regex list \<Rightarrow> nat"
where
  "min_len (One k) = 1"
| "min_len (Plus k) = 1"
| "min_len (Star k) = 0"
| "min_len (Opt k) = 0"
| "min_len (Seq rs) = min_len_seq rs"
| "min_len (Alt rs) = min_len_alt rs"
| "min_len (Group name r) = min_len r"
| "min_len_seq [] = 0"
| "min_len_seq (r # rs) = min_len r + min_len_seq rs"
| "min_len_alt [] = 0"
| "min_len_alt (r # rs) = (if rs = [] then min_len r else min (min_len r) (min_len_alt rs))"

text \<open>\<open>s.strip()\<close>, and \<open>int(s)\<close> on a run of decimal digits that may follow white space.\<close>

definition strip :: "string \<Rightarrow> string" where
  "strip s = rev (dropWhile is_space (rev (dropWhile is_space s)))"

definition int_of_str :: "string \<Rightarrow> nat" where
  "int_of_str s = foldl (\<lambda>a c. 10 * a + ((of_char c :: nat) - 48)) 0 (strip s)"

section \<open>Dates and times\<close>

record date =
  year :: nat
  month :: nat
  day :: nat

record time =
  hour :: nat
  minute :: nat
  second :: nat
  microsecond :: nat

record datetime =
  dt_date :: date
  dt_time :: time

definition time_min :: time where
  "time_min = \<lparr>hour = 0, minute = 0, second = 0, microsecond = 0\<rparr>"

definition time_max :: time where
  "time_max = \<lparr>hour = 23, minute = 59, second = 59, microsecond = 999999\<rparr>"

definition combine :: "date \<Rightarrow> time \<Rightarrow> datetime" where
  "combine d t = \<lparr>dt_date = d, dt_time = t\<rparr>"

definition is_leap :: "nat \<Rightarrow> bool" where
  "is_leap y = (y mod 4 = 0 \<and> (y mod 100 \<noteq> 0 \<or> y mod 400 = 0))"

definition days_in_month :: "nat \<Rightarrow> nat \<Rightarrow> nat" where
  "days_in_month y m =
     (if m = 2 then (if is_leap y then 29 else 28)
      else if m \<in> set [4, 6, 9, 11] then 30 else 31)"

definition date_new :: "nat \<Rightarrow> nat \<Rightarrow> nat \<Rightarrow> py_error + date" where
  "date_new y m d =
     (if y < 1 \<or> 9999 < y then Inl (ValueError ''year is out of range'')
      else if m < 1 \<or> 12 < m then Inl (ValueError ''month must be in 1..12'')
      else if d < 1 \<or> days_in_month y m < d then Inl (ValueError ''day is out of range for month'')
      else Inr \<lparr>year = y, month = m, day = d\<rparr>)"

definition time_new :: "nat \<Rightarrow> nat \<Rightarrow> nat \<Rightarrow> nat \<Rightarrow> py_error + time" where
  "time_new h mi s us =
     (if 23 < h then Inl (ValueError ''hour must be in 0..23'')
      else if 59 < mi then Inl (ValueError ''minute must be in 0..59'')
      else if 59 < s then Inl (ValueError ''second must be in 0..59'')
      else if 999999 < us then Inl (ValueError ''microsecond must be in 0..999999'')
      else Inr \<lparr>hour = h, minute = mi, second = s, microsecond = us\<rparr>)"

text \<open>\<open>str(n)\<close> for a natural number: its decimal digits.\<close>

definition digit_char :: "nat \<Rightarrow> char" where
  "digit_char n = ''0123456789'' ! (n mod 10)"

function str_nat :: "nat \<Rightarrow> string" where
  "str_nat n = (if n < 10 then [digit_char n] else str_nat (n div 10) @ [digit_char (n mod 10)])"
  by pat_completeness auto
termination
  by (relation "measure id") auto

declare str_nat.simps [simp del]

definition zfill :: "nat \<Rightarrow> string \<Rightarrow> string" where
  "zfill w s = replicate (w - length s) (CHR ''0'') @ s"

definition date_isoformat :: "date \<Rightarrow> string" where
  "date_isoformat d =
     zfill 4 (str_nat (year d)) @ ''-'' @ zfill 2 (str_nat (month d)) @ ''-'' @ zfill 2 (str_nat (day d))"

definition datetime_isoformat :: "datetime \<Rightarrow> string" where
  "datetime_isoformat dt =
     (let t = dt_time dt in
      date_isoformat (dt_date dt) @ ''T'' @ zfill 2 (str_nat (hour t)) @ '':''
        @ zfill 2 (str_nat (minute t)) @ '':'' @ zfill 2 (str_nat (second t))
        @ (if microsecond t \<noteq> 0 then ''.'' @ zfill 6 (str_nat (microsecond t)) else []))"

section \<open>\<open>datetime.strptime\<close>\<close>

text \<open>
  The regular expression of each directive the module's formats use, as the standard
  library's \<open>_strptime\<close> has it:
  \<^verbatim>\<open>%Y (?P<Y>\d\d\d\d)                       %H (?P<H>2[0-3]|[0-1]\d|\d)\<close>
  \<^verbatim>\<open>%m (?P<m>1[0-2]|0[1-9]|[1-9])            %M (?P<M>[0-5]\d|\d)\<close>
  \<^verbatim>\<open>%d (?P<d>3[0-1]|[1-2]\d|0[1-9]|[1-9]| [1-9])   %S (?P<S>6[0-1]|[0-5]\d|\d)\<close>
\<close>

definition directive :: "char \<Rightarrow> regex" where
  "directive c =
     (if c = CHR ''Y'' then Group ''Y'' (Seq [One Digit, One Digit, One Digit, One Digit])
      else if c = CHR ''m'' then
        Group ''m'' (Alt [Seq [One (Chr CHR ''1''), One (Rng CHR ''0'' CHR ''2'')],
                          Seq [One (Chr CHR ''0''), One (Rng CHR ''1'' CHR ''9'')],
                          One (Rng CHR ''1'' CHR ''9'')])
      else if c = CHR ''d'' then
        Group ''d'' (Alt [Seq [One (Chr CHR ''3''), One (Rng CHR ''0'' CHR ''1'')],
                          Seq [One (Rng CHR ''1'' CHR ''2''), One Digit],
                          Seq [One (Chr CHR ''0''), One (Rng CHR ''1'' CHR ''9'')],
                          One (Rng CHR ''1'' CHR ''9''),
                          Seq [One (Chr CHR '' ''), One (Rng CHR ''1'' CHR ''9'')]])
      else if c = CHR ''H'' then
        Group ''H'' (Alt [Seq [One (Chr CHR ''2''), One (Rng CHR ''0'' CHR ''3'')],
                          Seq [One (Rng CHR ''0'' CHR ''1''), One Digit],
                          One Digit])
      else if c = CHR ''M'' then
        Group ''M'' (Alt [Seq [One (Rng CHR ''0'' CHR ''5''), One Digit], One Digit])
      else if c = CHR ''S'' then
        Group ''S'' (Alt [Seq [One (Chr CHR ''6''), One (Rng CHR ''0'' CHR ''1'')],
                          Seq [One (Rng CHR ''0'' CHR ''5''), One Digit],
                          One Digit])
      else Alt [])"

text \<open>
  \<open>TimeRE.pattern\<close>: a run of white space in the format becomes \<open>\s+\<close>, a directive its
  regular expression, any other character itself.
\<close>

function pattern :: "string \<Rightarrow> regex list" where
  "pattern [] = []"
| "pattern (c # cs) =
     (if is_space c then Plus Space # pattern (dropWhile is_space cs)
      else if c = CHR ''%'' then (case cs of [] \<Rightarrow> [] | d # ds \<Rightarrow> directive d # pattern ds)
      else One (Chr c) # pattern cs)"
  by pat_completeness auto
termination
  by (relation "measure length") (auto simp: le_imp_less_Suc length_dropWhile_le)

definition strptime :: "string \<Rightarrow> string \<Rightarrow> py_error + datetime" where
  "strptime data_string fmt =
     (case re_match (Seq (pattern fmt)) data_string of
        None \<Rightarrow> Inl (ValueError ''time data does not match format'')
      | Some (rest, found) \<Rightarrow>
          if rest \<noteq> [] then Inl (ValueError (''unconverted data remains: '' @ rest))
          else
            (let field = (\<lambda>k dflt. case map_of found k of None \<Rightarrow> dflt | Some v \<Rightarrow> int_of_str v) in
             case date_new (field ''Y'' 1900) (field ''m'' 1) (field ''d'' 1) of
               Inl e \<Rightarrow> Inl e
             | Inr d \<Rightarrow>
                 (case time_new (field ''H'' 0) (field ''M'' 0) (field ''S'' 0) 0 of
                    Inl e \<Rightarrow> Inl e
                  | Inr t \<Rightarrow> Inr (combine d t))))"


section \<open>Time-range query builder (\<open>api/utils/time_range_bound.py\<close>)\<close>

text \<open>
  A bound is a string, a \<open>datetime\<close>, a \<open>date\<close>, or (against the annotation) a value of some
  other type, of which the code sees the type's name and the truth value.
\<close>

datatype time_input = Str string | Datetime datetime | Date date | Other string bool

fun try_formats :: "string \<Rightarrow> string list \<Rightarrow> py_error + datetime" where
  "try_formats time_input [] = Inl (ValueError (''Unable to parse time string: '' @ time_input))"
| "try_formats time_input (fmt # fmts) =
     (case strptime time_input fmt of
        Inr dt \<Rightarrow> Inr dt
      | Inl (ValueError msg) \<Rightarrow> try_formats time_input fmts
      | Inl e \<Rightarrow> Inl e)"

fun parse_time_input :: "time_input \<Rightarrow> py_error + datetime" where
  "parse_time_input (Datetime dt) = Inr dt"
| "parse_time_input (Date d) = Inr (combine d time_min)"
| "parse_time_input (Str s) = try_formats s [''%Y-%m-%d %H:%M:%S'', ''%Y-%m-%d %H:%M'', ''%Y-%m-%d'']"
| "parse_time_input (Other type_name b) = Inl (TypeError (''Unsupported time input type: '' @ type_name))"

text \<open>The truth value of a bound: an empty string is false, dates and datetimes are true.\<close>

fun truthy :: "time_input \<Rightarrow> bool" where
  "truthy (Str s) = (s \<noteq> [])"
| "truthy (Datetime dt) = True"
| "truthy (Date d) = True"
| "truthy (Other type_name b) = b"

text \<open>\<open>parse_time_input(x) if x else None\<close>, for an optional bound.\<close>

definition parse_if_given :: "time_input option \<Rightarrow> py_error + datetime option" where
  "parse_if_given x =
     (case x of
        None \<Rightarrow> Inr None
      | Some v \<Rightarrow> if truthy v then map_sum id Some (parse_time_input v) else Inr None)"

text \<open>
  The tests of the widening step: \<open>isinstance(end, (str, date))\<close>, which a \<open>datetime\<close>
  passes as a subclass of \<open>date\<close>; \<open>isinstance(end, datetime)\<close>; \<open>isinstance(end, date)\<close>;
  and \<open>len(str(end))\<close>, read only for a string or a date.
\<close>

fun isinstance_str_or_date :: "time_input \<Rightarrow> bool" where
  "isinstance_str_or_date (Str s) = True"
| "isinstance_str_or_date (Date d) = True"
| "isinstance_str_or_date (Datetime dt) = True"
| "isinstance_str_or_date (Other type_name b) = False"

fun isinstance_datetime :: "time_input \<Rightarrow> bool" where
  "isinstance_datetime (Datetime dt) = True"
| "isinstance_datetime v = False"

fun isinstance_date :: "time_input \<Rightarrow> bool" where
  "isinstance_date (Date d) = True"
| "isinstance_date (Datetime dt) = True"
| "isinstance_date v = False"

fun str_len :: "time_input \<Rightarrow> nat" where
  "str_len (Str s) = length s"
| "str_len (Date d) = length (date_isoformat d)"
| "str_len (Datetime dt) = length (datetime_isoformat dt)"
| "str_len (Other type_name b) = 0"

definition get_time_range_bounds ::
  "time_input option \<Rightarrow> time_input option \<Rightarrow> string \<Rightarrow> py_error + (datetime option \<times> datetime option)" where
  "get_time_range_bounds start end inclusive =
     (case parse_if_given start of
        Inl e \<Rightarrow> Inl e
      | Inr start_dt \<Rightarrow>
          (case parse_if_given end of
             Inl e \<Rightarrow> Inl e
           | Inr end_dt \<Rightarrow>
               (case (end_dt, end) of
                  (Some dt, Some e) \<Rightarrow>
                    if isinstance_str_or_date e \<and> \<not> isinstance_datetime e
                       \<and> (str_len e = 10 \<or> isinstance_date e)
                    then Inr (start_dt, Some (combine (dt_date dt) time_max))
                    else Inr (start_dt, end_dt)
                | _ \<Rightarrow> Inr (start_dt, end_dt))))"

text \<open>
  The filter \<open>Q('range', **{field: range_params})\<close>: the query's name and its keyword
  arguments; \<open>range_params\<close> is a dictionary from operator to ISO text, in insertion order.
\<close>

datatype Q = Q string "(string \<times> (string \<times> string) list) list"

definition build_time_range_query ::
  "string \<Rightarrow> time_input option \<Rightarrow> time_input option \<Rightarrow> string \<Rightarrow> py_error + Q" where
  "build_time_range_query field start end inclusive =
     (case get_time_range_bounds start end inclusive of
        Inl e \<Rightarrow> Inl e
      | Inr (start_dt, end_dt) \<Rightarrow>
          (let range_params =
                 (case start_dt of
                    None \<Rightarrow> []
                  | Some dt \<Rightarrow>
                      if inclusive \<in> set [''both'', ''start'']
                      then [(''gte'', datetime_isoformat dt)]
                      else [(''gt'', datetime_isoformat dt)])
                 @ (case end_dt of
                      None \<Rightarrow> []
                    | Some dt \<Rightarrow>
                        if inclusive \<in> set [''both'', ''end'']
                        then [(''lte'', datetime_isoformat dt)]
                        else [(''lt'', datetime_isoformat dt)])
           in if range_params = []
              then Inl (ValueError ''At least one of start or end must be provided'')
              else Inr (Q ''range'' [(field, range_params)])))"


section \<open>Date normalizer (\<open>api/utils/datetime_converter.py\<close>)\<close>

text \<open>
  The module reads the clock and calls the \<open>dateutil\<close> library: \<open>datetime.now()\<close>, the
  arithmetic \<open>now + relativedelta(...)\<close> and \<open>now - relativedelta(...)\<close>, and
  \<open>parser.parse(s, fuzzy=True, dayfirst=b)\<close>. They are parameters of the model, each with
  the exceptions it can raise: the arithmetic leaves the range of \<open>datetime\<close> with a
  \<open>ValueError\<close> or an \<open>OverflowError\<close>; the parser signals a text it cannot read with
  \<open>ParserError\<close> and a number too large for a C integer with \<open>OverflowError\<close>.
\<close>

datatype rel_delta = Days nat | Weeks nat | Months nat | Years nat

record dateutil =
  now :: datetime
  plus_delta :: "datetime \<Rightarrow> rel_delta \<Rightarrow> py_error + datetime"
  minus_delta :: "datetime \<Rightarrow> rel_delta \<Rightarrow> py_error + datetime"
  parser_parse :: "string \<Rightarrow> bool \<Rightarrow> py_error + datetime"

text \<open>
  The dictionary \<open>relative_dates\<close> is built before it is looked up: its ten values are
  computed in order, and the first that raises ends the call.
\<close>

fun eval_table :: "(string \<times> (py_error + datetime)) list \<Rightarrow> py_error + (string \<times> datetime) list" where
  "eval_table [] = Inr []"
| "eval_table ((k, v) # rest) =
     (case v of
        Inl e \<Rightarrow> Inl e
      | Inr dt \<Rightarrow> (case eval_table rest of Inl e \<Rightarrow> Inl e | Inr tab \<Rightarrow> Inr ((k, dt) # tab)))"

definition relative_dates :: "dateutil \<Rightarrow> py_error + (string \<times> datetime) list" where
  "relative_dates env =
     eval_table
       [(''today'', Inr (now env)),
        (''now'', Inr (now env)),
        (''yesterday'', minus_delta env (now env) (Days 1)),
        (''tomorrow'', plus_delta env (now env) (Days 1)),
        (''last week'', minus_delta env (now env) (Weeks 1)),
        (''next week'', plus_delta env (now env) (Weeks 1)),
        (''last month'', minus_delta env (now env) (Months 1)),
        (''next month'', plus_delta env (now env) (Months 1)),
        (''last year'', minus_delta env (now env) (Years 1)),
        (''next year'', plus_delta env (now env) (Years 1))]"

text \<open>
  The eight patterns, \<^verbatim>\<open>(\d+)\s*days?\s*ago\<close> and \<^verbatim>\<open>in\s*(\d+)\s*days?\<close> for each unit, each
  with the function applied to its group.
\<close>

definition literal :: "string \<Rightarrow> regex list" where
  "literal s = map (\<lambda>c. One (Chr c)) s"

definition ago_pattern :: "string \<Rightarrow> regex" where
  "ago_pattern unit_name =
     Seq ([Group ''1'' (Plus Digit), Star Space] @ literal unit_name
          @ [Opt (Chr CHR ''s''), Star Space] @ literal ''ago'')"

definition in_pattern :: "string \<Rightarrow> regex" where
  "in_pattern unit_name =
     Seq (literal ''in'' @ [Star Space, Group ''1'' (Plus Digit), Star Space] @ literal unit_name
          @ [Opt (Chr CHR ''s'')])"

definition patterns :: "dateutil \<Rightarrow> (regex \<times> (nat \<Rightarrow> py_error + datetime)) list" where
  "patterns env =
     [(ago_pattern ''day'', \<lambda>x. minus_delta env (now env) (Days x)),
      (ago_pattern ''week'', \<lambda>x. minus_delta env (now env) (Weeks x)),
      (ago_pattern ''month'', \<lambda>x. minus_delta env (now env) (Months x)),
      (ago_pattern ''year'', \<lambda>x. minus_delta env (now env) (Years x)),
      (in_pattern ''day'', \<lambda>x. plus_delta env (now env) (Days x)),
      (in_pattern ''week'', \<lambda>x. plus_delta env (now env) (Weeks x)),
      (in_pattern ''month'', \<lambda>x. plus_delta env (now env) (Months x)),
      (in_pattern ''year'', \<lambda>x. plus_delta env (now env) (Years x))]"

text \<open>\<open>match.group(1)\<close>; the group takes part in every match of these patterns.\<close>

definition group :: "groups \<Rightarrow> string \<Rightarrow> string" where
  "group g k = (case map_of g k of None \<Rightarrow> [] | Some v \<Rightarrow> v)"

fun first_match ::
  "(regex \<times> (nat \<Rightarrow> py_error + datetime)) list \<Rightarrow> string \<Rightarrow> py_error + datetime option" where
  "first_match [] s = Inr None"
| "first_match ((pat, func) # rest) s =
     (case re_search pat s of
        Some (left, g) \<Rightarrow> map_sum id Some (func (int_of_str (group g ''1'')))
      | None \<Rightarrow> first_match rest s)"

definition parse_relative_date :: "dateutil \<Rightarrow> string \<Rightarrow> py_error + datetime option" where
  "parse_relative_date env date_string =
     (let date_string_lower = lower date_string in
      case relative_dates env of
        Inl e \<Rightarrow> Inl e
      | Inr table \<Rightarrow>
          (case map_of table date_string_lower of
             Some dt \<Rightarrow> Inr (Some dt)
           | None \<Rightarrow> first_match (patterns env) date_string_lower))"

text \<open>
  The argument of \<open>parse_date_string\<close> is a string or something else (\<open>None\<close> included); the
  result is a \<open>datetime\<close>, its ISO text, or \<open>None\<close>.
\<close>

datatype date_input = DStr string | NotStr

datatype date_result = AsDatetime datetime | AsIso string

definition finish :: "bool \<Rightarrow> bool \<Rightarrow> datetime \<Rightarrow> date_result" where
  "finish return_iso include_microseconds dt =
     (let dt' = (if \<not> include_microseconds
                 then dt\<lparr>dt_time := (dt_time dt)\<lparr>microsecond := 0\<rparr>\<rparr> else dt)
      in if return_iso then AsIso (datetime_isoformat dt') else AsDatetime dt')"

text \<open>\<open>except (parser.ParserError, ValueError)\<close>: the exceptions the two attempts catch.\<close>

fun caught :: "py_error \<Rightarrow> bool" where
  "caught (ParserError msg) = True"
| "caught (ValueError msg) = True"
| "caught e = False"

definition parse_date_string ::
  "dateutil \<Rightarrow> date_input \<Rightarrow> bool \<Rightarrow> bool \<Rightarrow> py_error + date_result option" where
  "parse_date_string env date_string return_iso include_microseconds =
     (case date_string of
        NotStr \<Rightarrow> Inr None
      | DStr raw \<Rightarrow>
          if raw = [] then Inr None
          else
            (let s = strip raw in
             case parse_relative_date env s of
               Inl e \<Rightarrow> Inl e
             | Inr (Some relative_dt) \<Rightarrow> Inr (Some (finish return_iso include_microseconds relative_dt))
             | Inr None \<Rightarrow>
                 (case parser_parse env s False of
                    Inr dt \<Rightarrow> Inr (Some (finish return_iso include_microseconds dt))
                  | Inl e \<Rightarrow>
                      if caught e
                      then (case parser_parse env s True of
                              Inr dt \<Rightarrow> Inr (Some (finish return_iso include_microseconds dt))
                            | Inl e' \<Rightarrow> if caught e' then Inr None else Inl e')
                      else Inl e)))"

text \<open>
  What \<open>dateutil\<close> 2.9 does on the text \<open>99999999999\<close>, in either ordering: the number
  becomes the year, and building the \<open>datetime\<close> raises \<open>OverflowError\<close>. The clock and the
  arithmetic of this environment are placeholders: no entry of the table and no pattern
  matches that text, so none of their values is returned.
\<close>

definition overflowing_dateutil :: dateutil where
  "overflowing_dateutil =
     \<lparr>now = combine \<lparr>year = 2024, month = 1, day = 15\<rparr> time_min,
      plus_delta = (\<lambda>dt d. Inr dt),
      minus_delta = (\<lambda>dt d. Inr dt),
      parser_parse = (\<lambda>s dayfirst.
         if s = ''99999999999''
         then Inl (OverflowError ''signed integer is greater than maximum'')
         else Inl (ParserError ''String does not contain a date''))\<rparr>"


section \<open>Logging facade (\<open>api/utils/logger_manager.py\<close>)\<close>

subsection \<open>The logging backend\<close>

text \<open>
  The facade registers its sinks with the loguru logger, which numbers them: \<open>logger.add\<close>
  returns the value of a counter that only grows, \<open>logger.remove(id)\<close> raises \<open>ValueError\<close>
  when no sink has that number (the facade's own \<open>cleanup\<close> catches it under the comment
  \<open>Handler already removed\<close>), and \<open>logger.remove()\<close> drops every sink. A sink is kept as
  the keyword arguments it was added with, each a name and a value, \<open>None\<close> for Python's
  \<open>None\<close>.
\<close>

type_synonym kwargs = "(string \<times> string option) list"

record logger_core =
  handlers :: "(nat \<times> kwargs) list"
  handlers_count :: nat

definition logger_add :: "kwargs \<Rightarrow> logger_core \<Rightarrow> nat \<times> logger_core" where
  "logger_add kw c =
     (handlers_count c,
      c\<lparr>handlers := handlers c @ [(handlers_count c, kw)],
        handlers_count := Suc (handlers_count c)\<rparr>)"

definition logger_remove :: "nat \<Rightarrow> logger_core \<Rightarrow> py_error + logger_core" where
  "logger_remove handler_id c =
     (if handler_id \<notin> fst ` set (handlers c)
      then Inl (ValueError (''There is no existing handler with id '' @ str_nat handler_id))
      else Inr (c\<lparr>handlers := filter (\<lambda>h. fst h \<noteq> handler_id) (handlers c)\<rparr>))"

definition logger_remove_all :: "logger_core \<Rightarrow> logger_core" where
  "logger_remove_all c = c\<lparr>handlers := []\<rparr>"

text \<open>
  The state of the process the facade works on: the backend and the binding of
  \<open>builtins.print\<close>, which is the interpreter's own function or the facade's \<open>custom_print\<close>.
\<close>

datatype print_fn = OriginalPrint | CustomPrint

record process =
  core :: logger_core
  builtins_print :: print_fn

text \<open>A process in which loguru has just been imported: its default sink has number 0.\<close>

definition fresh_process :: process where
  "fresh_process =
     \<lparr>core = \<lparr>handlers = [(0, [(''sink'', Some ''sys.stderr'')])], handlers_count = 1\<rparr>,
      builtins_print = OriginalPrint\<rparr>"

subsection \<open>The manager\<close>

record logger_options =
  opt_log_name :: string
  opt_log_file_path :: string
  opt_level :: string
  opt_retention :: string
  opt_rotation :: string
  opt_json_format :: bool
  opt_mode :: string
  opt_console_level :: "string option"
  opt_enable_print_redirect :: bool
  opt_enable_exception_logging :: bool
  opt_custom_format :: "string option"
  opt_colorize :: "bool option"
  opt_backtrace :: "bool option"
  opt_diagnose :: "bool option"
  opt_catch_exceptions :: bool
  opt_extra_handlers :: "kwargs list option"
  opt_filter_func :: "string option"

definition default_options :: logger_options where
  "default_options =
     \<lparr>opt_log_name = ''app'', opt_log_file_path = ''logs/app.log'', opt_level = ''DEBUG'',
      opt_retention = ''7 days'', opt_rotation = ''500 MB'', opt_json_format = False,
      opt_mode = ''dev'', opt_console_level = None, opt_enable_print_redirect = False,
      opt_enable_exception_logging = True, opt_custom_format = None, opt_colorize = None,
      opt_backtrace = None, opt_diagnose = None, opt_catch_exceptions = True,
      opt_extra_handlers = None, opt_filter_func = None\<rparr>"

record logger_manager =
  log_name :: string
  log_file_path :: string
  level :: string
  retention :: string
  rotation :: string
  json_format :: bool
  mode :: string
  is_dev :: bool
  is_prod :: bool
  console_level :: string
  enable_print_redirect :: bool
  enable_exception_logging :: bool
  custom_format :: "string option"
  colorize :: bool
  backtrace :: bool
  diagnose :: bool
  catch_exceptions :: bool
  extra_handlers :: "kwargs list"
  filter_func :: "string option"
  original_print :: print_fn
  print_redirected :: bool
  handler_ids :: "nat list"
  exception_handler :: bool

type_synonym logging = "logger_manager \<times> process"

definition str_bool :: "bool \<Rightarrow> string" where
  "str_bool b = (if b then ''True'' else ''False'')"

text \<open>
  \<open>if 'filter' not in kwargs and self.filter_func: kwargs['filter'] = self.filter_func\<close>
\<close>

definition with_filter :: "string option \<Rightarrow> kwargs \<Rightarrow> kwargs" where
  "with_filter f kw =
     (if ''filter'' \<notin> fst ` set kw \<and> f \<noteq> None then kw @ [(''filter'', f)] else kw)"

definition redirect_print :: "logging \<Rightarrow> logging" where
  "redirect_print s =
     (let (m, p) = s in
      if print_redirected m then (m, p)
      else (m\<lparr>print_redirected := True\<rparr>, p\<lparr>builtins_print := CustomPrint\<rparr>))"

definition restore_print :: "logging \<Rightarrow> logging" where
  "restore_print s =
     (let (m, p) = s in
      if print_redirected m
      then (m\<lparr>print_redirected := False\<rparr>, p\<lparr>builtins_print := original_print m\<rparr>)
      else (m, p))"

definition setup_exception_logging :: "logging \<Rightarrow> logging" where
  "setup_exception_logging s =
     (let (m, p) = s in if catch_exceptions m then (m\<lparr>exception_handler := True\<rparr>, p) else (m, p))"

text \<open>
  The loop over \<open>self.extra_handlers\<close>: each dictionary gets the filter written into it when
  it has none, is added, and its number recorded.
\<close>

fun add_extra_handlers ::
  "string option \<Rightarrow> kwargs list \<Rightarrow> logger_core \<Rightarrow> kwargs list \<times> nat list \<times> logger_core" where
  "add_extra_handlers f [] c = ([], [], c)"
| "add_extra_handlers f (h # hs) c =
     (let h' = with_filter f h;
          (i, c') = logger_add h' c;
          (hs', ids, c'') = add_extra_handlers f hs c'
      in (h' # hs', i # ids, c''))"

definition console_sink :: "logger_manager \<Rightarrow> kwargs" where
  "console_sink m =
     [(''sink'', Some ''sys.stdout''), (''level'', Some (console_level m)),
      (''format'', Some ''{time:YYYY-MM-DD HH:mm:ss} | {level:<5} | {message}''),
      (''colorize'', Some ''False''), (''backtrace'', Some (str_bool (backtrace m))),
      (''diagnose'', Some (str_bool (diagnose m))), (''filter'', filter_func m)]"

definition file_sink :: "logger_manager \<Rightarrow> kwargs" where
  "file_sink m =
     (let log_format =
            (if json_format m then ''{message}''
             else (case custom_format m of
                     Some fmt \<Rightarrow> if fmt \<noteq> [] then fmt
                                 else ''{time:YYYY-MM-DD HH:mm:ss} | {level:<5} | {function}:{line} | {message}''
                   | None \<Rightarrow> ''{time:YYYY-MM-DD HH:mm:ss} | {level:<5} | {function}:{line} | {message}''))
      in [(''sink'', Some (log_file_path m)), (''level'', Some (level m)),
          (''rotation'', Some (rotation m)), (''retention'', Some (retention m)),
          (''format'', Some log_format), (''backtrace'', Some (str_bool (backtrace m))),
          (''diagnose'', Some (str_bool (diagnose m))), (''enqueue'', Some ''True''),
          (''serialize'', Some (str_bool (json_format m))), (''filter'', filter_func m)])"

text \<open>\<open>_setup_logger\<close>; creating the directory of the log file leaves this state alone.\<close>

definition setup_logger :: "logging \<Rightarrow> logging" where
  "setup_logger s =
     (let (m, p) = s;
          c0 = logger_remove_all (core p);
          (id1, c1) = logger_add (console_sink m) c0;
          (id2, c2) = logger_add (file_sink m) c1;
          (extras, ids, c3) = add_extra_handlers (filter_func m) (extra_handlers m) c2;
          m' = m\<lparr>handler_ids := handler_ids m @ [id1, id2] @ ids, extra_handlers := extras\<rparr>;
          s1 = (m', p\<lparr>core := c3\<rparr>);
          s2 = (if enable_print_redirect m' then redirect_print s1 else s1)
      in if enable_exception_logging m' then setup_exception_logging s2 else s2)"

text \<open>\<open>LoggerManager(...)\<close> in a process.\<close>

definition init :: "logger_options \<Rightarrow> process \<Rightarrow> logging" where
  "init opts p =
     (let lvl = upper (opt_level opts);
          md = lower (opt_mode opts);
          dev = (md = ''dev'')
      in setup_logger
           (\<lparr>log_name = opt_log_name opts,
             log_file_path = opt_log_file_path opts,
             level = lvl,
             retention = opt_retention opts,
             rotation = opt_rotation opts,
             json_format = opt_json_format opts,
             mode = md,
             is_dev = dev,
             is_prod = (md = ''prod''),
             console_level =
               (case opt_console_level opts of
                  Some cl \<Rightarrow> if cl \<noteq> [] then upper cl else (if dev then ''INFO'' else lvl)
                | None \<Rightarrow> (if dev then ''INFO'' else lvl)),
             enable_print_redirect = opt_enable_print_redirect opts,
             enable_exception_logging = opt_enable_exception_logging opts,
             custom_format = opt_custom_format opts,
             colorize = (case opt_colorize opts of Some b \<Rightarrow> b | None \<Rightarrow> False),
             backtrace = (case opt_backtrace opts of Some b \<Rightarrow> b | None \<Rightarrow> dev),
             diagnose = (case opt_diagnose opts of Some b \<Rightarrow> b | None \<Rightarrow> dev),
             catch_exceptions = opt_catch_exceptions opts,
             extra_handlers = (case opt_extra_handlers opts of Some hs \<Rightarrow> hs | None \<Rightarrow> []),
             filter_func = opt_filter_func opts,
             original_print = builtins_print p,
             print_redirected = False,
             handler_ids = [],
             exception_handler = False\<rparr>, p))"

definition add_handler :: "kwargs \<Rightarrow> logging \<Rightarrow> nat \<times> logging" where
  "add_handler kw s =
     (let (m, p) = s;
          (handler_id, c) = logger_add (with_filter (filter_func m) kw) (core p)
      in (handler_id, (m\<lparr>handler_ids := handler_ids m @ [handler_id]\<rparr>, p\<lparr>core := c\<rparr>)))"

text \<open>
  \<open>remove_handler\<close>: the backend is asked first, outside any \<open>try\<close>; the facade's own list is
  touched only when the backend has returned.
\<close>

definition remove_handler :: "nat \<Rightarrow> logging \<Rightarrow> py_error + logging" where
  "remove_handler handler_id s =
     (let (m, p) = s in
      case logger_remove handler_id (core p) of
        Inl e \<Rightarrow> Inl e
      | Inr c \<Rightarrow>
          Inr (if handler_id \<in> set (handler_ids m)
               then (m\<lparr>handler_ids := remove1 handler_id (handler_ids m)\<rparr>, p\<lparr>core := c\<rparr>)
               else (m, p\<lparr>core := c\<rparr>)))"

text \<open>
  The loop of \<open>cleanup\<close>: \<open>try: logger.remove(handler_id) except ValueError: pass\<close>. The
  backend raises nothing else.
\<close>

fun remove_tolerant :: "nat list \<Rightarrow> logger_core \<Rightarrow> logger_core" where
  "remove_tolerant [] c = c"
| "remove_tolerant (handler_id # rest) c =
     remove_tolerant rest (case logger_remove handler_id c of Inl e \<Rightarrow> c | Inr c' \<Rightarrow> c')"

definition cleanup :: "logging \<Rightarrow> logging" where
  "cleanup s =
     (let (m, p) = s in
      restore_print (m\<lparr>handler_ids := []\<rparr>, p\<lparr>core := remove_tolerant (handler_ids m) (core p)\<rparr>))"

definition set_filter :: "string option \<Rightarrow> logging \<Rightarrow> logging" where
  "set_filter f s = (let (m, p) = s in setup_logger (cleanup (m\<lparr>filter_func := f\<rparr>, p)))"

text \<open>
  The scenario of the specification: a manager with default options in a fresh process, one
  more sink added by \<open>add_handler\<close>, then a change of filter.
\<close>

definition started :: logging where
  "started = init default_options fresh_process"

definition with_audit_sink :: "nat \<times> logging" where
  "with_audit_sink = add_handler [(''sink'', Some ''logs/audit.log'')] started"

definition after_set_filter :: logging where
  "after_set_filter = set_filter (Some ''no_password_filter'') (snd with_audit_sink)"


section \<open>Scheduler facade (\<open>api/utils/scheduler.py\<close>)\<close>

text \<open>
  What a call of a scheduled function does: it returns a result or raises. Of a raised
  exception the wrapper's \<open>except Exception\<close> sees the class: an instance of \<open>Exception\<close>
  (or of a subclass), or an instance of \<open>BaseException\<close> outside \<open>Exception\<close>, which Python
  keeps for \<open>SystemExit\<close>, \<open>KeyboardInterrupt\<close> and \<open>GeneratorExit\<close>.
\<close>

datatype raised = Exc string | BaseExc string

datatype 'r outcome = Returns 'r | Raises raised

text \<open>
  A record written through \<open>get_task_logger(job_name)\<close>: the logger is bound with the task's
  name and the type \<open>scheduled\<close>; \<open>task_logger.exception\<close> writes at level \<open>ERROR\<close> with the
  exception being handled.
\<close>

record task_log =
  tl_level :: log_level
  tl_message :: string
  tl_extra :: "(string \<times> string) list"
  tl_exception :: "raised option"

definition get_task_logger :: "string \<Rightarrow> log_level \<Rightarrow> string \<Rightarrow> raised option \<Rightarrow> task_log" where
  "get_task_logger task_name lvl msg exc =
     \<lparr>tl_level = lvl, tl_message = msg,
      tl_extra = [(''task'', task_name), (''task_type'', ''scheduled'')],
      tl_exception = exc\<rparr>"

text \<open>A callable: its \<open>__name__\<close>, if it has one, and what calling it does.\<close>

record 'r callable =
  fn_name :: "string option"
  fn_call :: "unit \<Rightarrow> 'r outcome"

text \<open>The wrapper \<open>add_job\<close> builds: the records it writes and how the call ends.\<close>

definition logged_job_wrapper :: "string \<Rightarrow> (unit \<Rightarrow> 'r outcome) \<Rightarrow> unit \<Rightarrow> task_log list \<times> 'r outcome" where
  "logged_job_wrapper job_name func u =
     (let task_logger = get_task_logger job_name;
          starting = task_logger Info (''Starting scheduled task: '' @ job_name) None
      in case func () of
           Returns result \<Rightarrow>
             ([starting, task_logger Success (''Completed scheduled task: '' @ job_name) None],
              Returns result)
         | Raises (Exc e) \<Rightarrow>
             ([starting, task_logger Error (''Error in scheduled task: '' @ job_name) (Some (Exc e))],
              Raises (Exc e))
         | Raises (BaseExc e) \<Rightarrow> ([starting], Raises (BaseExc e)))"

text \<open>
  The manager holds the backend's scheduler, \<open>None\<close> until \<open>init_scheduler\<close>; of the backend
  the model keeps the jobs it was given. A job gets the identifier among the options, or a
  fresh one from the backend.
\<close>

record 'r job =
  job_id :: string
  job_name :: string
  job_trigger :: string
  job_func :: "unit \<Rightarrow> task_log list \<times> 'r outcome"

record 'r scheduler_manager =
  scheduler :: "'r job list option"
  initialized :: bool

definition add_job ::
  "'r scheduler_manager \<Rightarrow> 'r callable \<Rightarrow> string \<Rightarrow> (string \<times> string) list \<Rightarrow> string
     \<Rightarrow> py_error + ('r job \<times> 'r scheduler_manager \<times> log_record list)" where
  "add_job mgr func trigger options fresh_id =
     (case fn_name func of
        None \<Rightarrow> Inl (AttributeError ''object has no attribute __name__'')
      | Some default_name \<Rightarrow>
          (let name = (case map_of options ''name'' of Some n \<Rightarrow> n | None \<Rightarrow> default_name) in
           case scheduler mgr of
             None \<Rightarrow> Inl (AttributeError ''NoneType object has no attribute add_job'')
           | Some jobs \<Rightarrow>
               (let job = \<lparr>job_id = (case map_of options ''id'' of Some i \<Rightarrow> i | None \<Rightarrow> fresh_id),
                           job_name = name, job_trigger = trigger,
                           job_func = logged_job_wrapper name (fn_call func)\<rparr>
                in Inr (job, mgr\<lparr>scheduler := Some (jobs @ [job])\<rparr>,
                        [(Info, ''Added scheduled job: '' @ name)]))))"

text \<open>Whether a log holds a record of the exception.\<close>

definition logs_exception :: "task_log list \<Rightarrow> raised \<Rightarrow> bool" where
  "logs_exception log e = (Some e \<in> set (map tl_exception log))"

text \<open>
  A running manager, a job that ends the process with \<open>sys.exit()\<close>, a job that fails with a
  \<open>ValueError\<close>, and a job that returns 42.
\<close>

definition running_manager :: "nat scheduler_manager" where
  "running_manager = \<lparr>scheduler = Some [], initialized = True\<rparr>"

definition exiting_job :: "nat callable" where
  "exiting_job = \<lparr>fn_name = Some ''shutdown_worker'', fn_call = (\<lambda>u. Raises (BaseExc ''SystemExit''))\<rparr>"

definition failing_job :: "nat callable" where
  "failing_job = \<lparr>fn_name = Some ''refresh_cache'', fn_call = (\<lambda>u. Raises (Exc ''ValueError''))\<rparr>"

definition counting_job :: "nat callable" where
  "counting_job = \<lparr>fn_name = Some ''count_rows'', fn_call = (\<lambda>u. Returns 42)\<rparr>"

definition exiting_registration ::
  "py_error + (nat job \<times> nat scheduler_manager \<times> log_record list)" where
  "exiting_registration = add_job running_manager exiting_job ''interval'' [] ''job-1''"


section \<open>Properties of the access gate\<close>




lemma dev_environment_ignores_cookies:
  "is_development_environment (ctx\<lparr>cookies := cs\<rparr>) = is_development_environment ctx"
  by (simp add: is_development_environment_def)

lemma empty_cookie_request_not_dev: "\<not> is_development_environment empty_cookie_request"
  by (simp add: is_development_environment_def empty_cookie_request_def get_default_def
      startswith_def upper_def upper_char_def)






text \<open>
  C10: with no development bypass and a \<open>LASTUSER\<close> cookie equal to the empty string, the gate
  denies with no identity and writes the one warning of the absent cookie; decision and log
  are those of the same request without the cookie, so the restriction rule (whose denial
  would be logged and would carry the identity) plays no part.
\<close>

theorem check_user_access_empty_cookie_as_absent:
  assumes "\<not> is_development_environment ctx"
    and "get_user_from_cookie ctx = Some ''''"
  shows "check_user_access ctx = ((False, None), [(Warning, ''No LASTUSER cookie found in request'')])
         \<and> check_user_access ctx = check_user_access (ctx\<lparr>cookies := (cookies ctx)(''LASTUSER'' := None)\<rparr>)"
  using assms
  by (simp add: check_user_access_def dev_environment_ignores_cookies get_user_from_cookie_def)

theorem check_user_access_empty_cookie_as_absent_witness:
  "\<not> is_development_environment empty_cookie_request
   \<and> get_user_from_cookie empty_cookie_request = Some ''''
   \<and> check_user_access empty_cookie_request
       = ((False, None), [(Warning, ''No LASTUSER cookie found in request'')])
   \<and> check_user_access empty_cookie_request
       = check_user_access (empty_cookie_request\<lparr>cookies := (cookies empty_cookie_request)(''LASTUSER'' := None)\<rparr>)"
proof -
  have h: "get_user_from_cookie empty_cookie_request = Some ''''"
    by (simp add: get_user_from_cookie_def empty_cookie_request_def)
  show ?thesis
    using check_user_access_empty_cookie_as_absent [OF empty_cookie_request_not_dev h]
      empty_cookie_request_not_dev h
    by blast
qed


section \<open>Properties of the time-range query builder\<close>

lemma repeats_len: "rest \<in> set (repeats k s) \<Longrightarrow> length rest \<le> length s"
  by (induction s) (auto split: if_splits)

lemma rmatch_len:
  "(rest, g') \<in> set (rmatch r s g) \<Longrightarrow> length rest + min_len r \<le> length s"
  "(rest, g') \<in> set (rmatch_seq rs s g) \<Longrightarrow> length rest + min_len_seq rs \<le> length s"
  "(rest, g') \<in> set (rmatch_alt rs s g) \<Longrightarrow> length rest + min_len_alt rs \<le> length s"
proof (induction r s g and rs s g and rs s g arbitrary: rest g' and rest g' and rest g' rule: rmatch_rmatch_seq_rmatch_alt.induct)
  case (1 k s g)
  then show ?case by (auto split: list.splits if_splits)
next
  case (2 k s g)
  then show ?case by (auto split: list.splits if_splits dest: repeats_len)
next
  case (3 k s g)
  then show ?case by (auto dest: repeats_len)
next
  case (4 k s g)
  then show ?case by (auto split: list.splits if_splits)
next
  case (5 rs s g)
  then show ?case by simp
next
  case (6 rs s g)
  then show ?case by simp
next
  case (7 name r s g)
  then show ?case by auto
next
  case (8 s g)
  then show ?case by simp
next
  case (9 r rs s g)
  from "9.prems" obtain mid gm where m1: "(mid, gm) \<in> set (rmatch r s g)"
    and m2: "(rest, g') \<in> set (rmatch_seq rs mid gm)"
    by auto
  from "9.IH"(1)[OF m1] "9.IH"(2)[OF m1 refl m2] show ?case by simp
next
  case (10 s g)
  then show ?case by simp
next
  case (11 r rs s g)
  from "11.prems" consider (a) "(rest, g') \<in> set (rmatch r s g)"
    | (b) "(rest, g') \<in> set (rmatch_alt rs s g)"
    by auto
  then show ?case
  proof cases
    case a
    from "11.IH"(1)[OF a] show ?thesis by (simp add: min_def)
  next
    case b
    then have "rs \<noteq> []" by auto
    with "11.IH"(2)[OF b] show ?thesis by (simp add: min_def)
  qed
qed

lemma strptime_min_len:
  assumes "strptime s fmt = Inr dt"
  shows "min_len_seq (pattern fmt) \<le> length s"
proof -
  from assms obtain g where "re_match (Seq (pattern fmt)) s = Some ([], g)"
    by (auto simp: strptime_def split: option.splits if_splits prod.splits)
  then have "([], g) \<in> set (rmatch (Seq (pattern fmt)) s [])"
    by (auto simp: re_match_def split: list.splits)
  from rmatch_len(1)[OF this] show ?thesis by simp
qed

lemma pattern_seconds:
  "pattern ''%Y-%m-%d %H:%M:%S'' =
     [directive CHR ''Y'', One (Chr CHR ''-''), directive CHR ''m'', One (Chr CHR ''-''),
      directive CHR ''d'', Plus Space, directive CHR ''H'', One (Chr CHR '':''),
      directive CHR ''M'', One (Chr CHR '':''), directive CHR ''S'']"
  by (simp add: is_space_def)

lemma pattern_minutes:
  "pattern ''%Y-%m-%d %H:%M'' =
     [directive CHR ''Y'', One (Chr CHR ''-''), directive CHR ''m'', One (Chr CHR ''-''),
      directive CHR ''d'', Plus Space, directive CHR ''H'', One (Chr CHR '':''),
      directive CHR ''M'']"
  by (simp add: is_space_def)

lemma pattern_date:
  "pattern ''%Y-%m-%d'' =
     [directive CHR ''Y'', One (Chr CHR ''-''), directive CHR ''m'', One (Chr CHR ''-''),
      directive CHR ''d'']"
  by (simp add: is_space_def)

lemma min_len_directives:
  "min_len (directive CHR ''Y'') = 4" "min_len (directive CHR ''m'') = 1"
  "min_len (directive CHR ''d'') = 1" "min_len (directive CHR ''H'') = 1"
  "min_len (directive CHR ''M'') = 1" "min_len (directive CHR ''S'') = 1"
  by (simp_all add: directive_def)

lemma strptime_seconds_len: "strptime s ''%Y-%m-%d %H:%M:%S'' = Inr dt \<Longrightarrow> 14 \<le> length s"
  using strptime_min_len [of s "''%Y-%m-%d %H:%M:%S''" dt]
  unfolding pattern_seconds by (simp add: min_len_directives)

lemma strptime_minutes_len: "strptime s ''%Y-%m-%d %H:%M'' = Inr dt \<Longrightarrow> 12 \<le> length s"
  using strptime_min_len [of s "''%Y-%m-%d %H:%M''" dt]
  unfolding pattern_minutes by (simp add: min_len_directives)

lemma strptime_date_len: "strptime s ''%Y-%m-%d'' = Inr dt \<Longrightarrow> 8 \<le> length s"
  using strptime_min_len [of s "''%Y-%m-%d''" dt]
  unfolding pattern_date by (simp add: min_len_directives)

lemma date_new_error: "date_new y m d = Inl e \<Longrightarrow> \<exists>msg. e = ValueError msg"
  by (auto simp: date_new_def split: if_splits)

lemma time_new_error: "time_new h mi s us = Inl e \<Longrightarrow> \<exists>msg. e = ValueError msg"
  by (auto simp: time_new_def split: if_splits)

lemma strptime_error:
  assumes "strptime s fmt = Inl e"
  shows "\<exists>msg. e = ValueError msg"
proof (cases "re_match (Seq (pattern fmt)) s")
  case None
  with assms show ?thesis by (auto simp: strptime_def)
next
  case (Some m)
  obtain rest found where m: "m = (rest, found)" by (cases m)
  show ?thesis
  proof (cases "rest = []")
    case False
    with assms Some m show ?thesis by (auto simp: strptime_def)
  next
    case True
    with assms Some m show ?thesis
      by (auto simp: strptime_def Let_def split: sum.splits dest: date_new_error time_new_error)
  qed
qed

lemma try_formats_first: "strptime s fmt = Inr dt \<Longrightarrow> try_formats s (fmt # fmts) = Inr dt"
  by simp

lemma try_formats_next: "isl (strptime s fmt) \<Longrightarrow> try_formats s (fmt # fmts) = try_formats s fmts"
  by (cases "strptime s fmt") (auto dest: strptime_error)

lemma parse_str_cases:
  assumes "parse_time_input (Str s) = Inr dt"
  shows "strptime s ''%Y-%m-%d %H:%M:%S'' = Inr dt \<or> strptime s ''%Y-%m-%d %H:%M'' = Inr dt
         \<or> strptime s ''%Y-%m-%d'' = Inr dt"
proof (cases "strptime s ''%Y-%m-%d %H:%M:%S''")
  case (Inr a)
  with assms show ?thesis by simp
next
  case a: (Inl e)
  then have ia: "isl (strptime s ''%Y-%m-%d %H:%M:%S'')" by simp
  show ?thesis
  proof (cases "strptime s ''%Y-%m-%d %H:%M''")
    case (Inr b)
    with assms ia show ?thesis by (simp add: try_formats_next del: try_formats.simps) simp
  next
    case b: (Inl e')
    then have ib: "isl (strptime s ''%Y-%m-%d %H:%M'')" by simp
    show ?thesis
    proof (cases "strptime s ''%Y-%m-%d''")
      case (Inr c)
      with assms ia ib show ?thesis by (simp add: try_formats_next del: try_formats.simps) simp
    next
      case (Inl e'')
      then have "isl (strptime s ''%Y-%m-%d'')" by simp
      with assms ia ib show ?thesis by (simp add: try_formats_next del: try_formats.simps) simp
    qed
  qed
qed

lemma parse_str_len: "parse_time_input (Str s) = Inr dt \<Longrightarrow> 8 \<le> length s"
  using parse_str_cases [of s dt] strptime_seconds_len [of s dt] strptime_minutes_len [of s dt]
    strptime_date_len [of s dt]
  by auto

lemma parsed_is_truthy:
  assumes "parse_time_input x = Inr dt"
  shows "truthy x"
proof (cases x)
  case (Str s)
  with assms have "8 \<le> length s" by (simp only: parse_str_len)
  with Str show ?thesis by auto
next
  case (Other n b)
  with assms show ?thesis by simp
qed simp_all

lemma parse_if_given_parsed:
  "parse_time_input x = Inr dt \<Longrightarrow> parse_if_given (Some x) = Inr (Some dt)"
  by (simp add: parse_if_given_def parsed_is_truthy)

lemma time_string_parses:
  assumes "\<not> isl (strptime s ''%Y-%m-%d %H:%M:%S'') \<or> \<not> isl (strptime s ''%Y-%m-%d %H:%M'')"
  shows "\<exists>dt. parse_time_input (Str s) = Inr dt \<and> 12 \<le> length s
           \<and> (strptime s ''%Y-%m-%d %H:%M:%S'' = Inr dt \<or> strptime s ''%Y-%m-%d %H:%M'' = Inr dt)"
proof (cases "strptime s ''%Y-%m-%d %H:%M:%S''")
  case (Inr a)
  then show ?thesis using strptime_seconds_len [of s a] by simp
next
  case (Inl e)
  then have ia: "isl (strptime s ''%Y-%m-%d %H:%M:%S'')" by simp
  with assms obtain b where b: "strptime s ''%Y-%m-%d %H:%M'' = Inr b"
    by (cases "strptime s ''%Y-%m-%d %H:%M''") auto
  have "parse_time_input (Str s) = Inr b"
    using ia b by (simp add: try_formats_next del: try_formats.simps) simp
  then show ?thesis using b strptime_minutes_len [of s b] by simp
qed

lemma parse_if_given_None: "parse_if_given None = Inr None"
  by (simp add: parse_if_given_def)

lemma bounds_result:
  assumes "parse_if_given start = Inr sd" and "parse_if_given end = Inr ed"
  shows "\<exists>ed'. get_time_range_bounds start end inclusive = Inr (sd, ed') \<and> (ed' = None \<longleftrightarrow> ed = None)"
  using assms
  by (auto simp: get_time_range_bounds_def split: option.splits)

lemma bounds_start: "get_time_range_bounds start end inclusive = Inr (sd, ed) \<Longrightarrow> parse_if_given start = Inr sd"
  by (auto simp: get_time_range_bounds_def split: sum.splits option.splits if_splits)

lemmas strptime_eval =
  re_match_def directive_def is_digit_def is_space_def int_of_str_def strip_def
  date_new_def time_new_def days_in_month_def is_leap_def time_min_def combine_def

lemma strptime_empty:
  "strptime '''' ''%Y-%m-%d %H:%M:%S'' = Inl (ValueError ''time data does not match format'')"
  "strptime '''' ''%Y-%m-%d %H:%M'' = Inl (ValueError ''time data does not match format'')"
  "strptime '''' ''%Y-%m-%d'' = Inl (ValueError ''time data does not match format'')"
  unfolding strptime_def pattern_seconds pattern_minutes pattern_date
  by (simp_all add: strptime_eval)

lemma strptime_2024_01_01:
  "strptime ''2024-01-01'' ''%Y-%m-%d %H:%M:%S'' = Inl (ValueError ''time data does not match format'')"
  "strptime ''2024-01-01'' ''%Y-%m-%d %H:%M'' = Inl (ValueError ''time data does not match format'')"
  "strptime ''2024-01-01'' ''%Y-%m-%d'' = Inr (combine \<lparr>year = 2024, month = 1, day = 1\<rparr> time_min)"
  unfolding strptime_def pattern_seconds pattern_minutes pattern_date
  by (simp_all add: strptime_eval)

lemma strptime_2024_01_31:
  "strptime ''2024-01-31'' ''%Y-%m-%d %H:%M:%S'' = Inl (ValueError ''time data does not match format'')"
  "strptime ''2024-01-31'' ''%Y-%m-%d %H:%M'' = Inl (ValueError ''time data does not match format'')"
  "strptime ''2024-01-31'' ''%Y-%m-%d'' = Inr (combine \<lparr>year = 2024, month = 1, day = 31\<rparr> time_min)"
  unfolding strptime_def pattern_seconds pattern_minutes pattern_date
  by (simp_all add: strptime_eval)

lemma strptime_2024_01_31_1030:
  "strptime ''2024-01-31 10:30:00'' ''%Y-%m-%d %H:%M:%S''
     = Inr (combine \<lparr>year = 2024, month = 1, day = 31\<rparr>
              \<lparr>hour = 10, minute = 30, second = 0, microsecond = 0\<rparr>)"
  unfolding strptime_def pattern_seconds
  by (simp add: strptime_eval)

lemma parse_2024_01_01:
  "parse_time_input (Str ''2024-01-01'') = Inr (combine \<lparr>year = 2024, month = 1, day = 1\<rparr> time_min)"
  by (simp add: strptime_2024_01_01)

lemma parse_2024_01_31:
  "parse_time_input (Str ''2024-01-31'') = Inr (combine \<lparr>year = 2024, month = 1, day = 31\<rparr> time_min)"
  by (simp add: strptime_2024_01_31)

lemma isoformat_examples:
  "datetime_isoformat (combine \<lparr>year = 2024, month = 1, day = 1\<rparr> time_min) = ''2024-01-01T00:00:00''"
  "datetime_isoformat (combine \<lparr>year = 2024, month = 1, day = 31\<rparr> time_max) = ''2024-01-31T23:59:59.999999''"
  by (simp_all add: datetime_isoformat_def date_isoformat_def combine_def time_max_def time_min_def
      zfill_def str_nat.simps digit_char_def)

lemma bounds_2024_january:
  "get_time_range_bounds (Some (Str ''2024-01-01'')) (Some (Str ''2024-01-31'')) inclusive
     = Inr (Some (combine \<lparr>year = 2024, month = 1, day = 1\<rparr> time_min),
            Some (combine \<lparr>year = 2024, month = 1, day = 31\<rparr> time_max))"
  by (simp add: get_time_range_bounds_def parse_if_given_def parse_2024_01_01 parse_2024_01_31
      combine_def del: parse_time_input.simps)

text \<open>
  C4: the start bound being one that \<open>get_time_range_bounds\<close> accepts, an end bound given as a
  \<open>date\<close> object comes back as the last instant (23:59:59.999999) of that date; an end bound
  given as a string of 10 characters that parses comes back as the last instant of the parsed
  day; an end bound given as a \<open>datetime\<close> object comes back unchanged; and an end bound given
  as a string that one of the two formats with a time component accepts comes back as the
  datetime parsed from it, time of day included.
\<close>

theorem end_bound_widening:
  assumes "parse_if_given start = Inr start_dt"
  shows "get_time_range_bounds start (Some (Date d)) inclusive
           = Inr (start_dt, Some (combine d time_max))
         \<and> (length s = 10 \<and> parse_time_input (Str s) = Inr dt \<longrightarrow>
              get_time_range_bounds start (Some (Str s)) inclusive
                = Inr (start_dt, Some (combine (dt_date dt) time_max)))
         \<and> get_time_range_bounds start (Some (Datetime dt')) inclusive = Inr (start_dt, Some dt')
         \<and> (\<not> isl (strptime s' ''%Y-%m-%d %H:%M:%S'') \<or> \<not> isl (strptime s' ''%Y-%m-%d %H:%M'') \<longrightarrow>
              (\<exists>p. parse_time_input (Str s') = Inr p
                   \<and> (strptime s' ''%Y-%m-%d %H:%M:%S'' = Inr p \<or> strptime s' ''%Y-%m-%d %H:%M'' = Inr p)
                   \<and> get_time_range_bounds start (Some (Str s')) inclusive = Inr (start_dt, Some p)))"
proof (intro conjI impI)
  show "get_time_range_bounds start (Some (Date d)) inclusive = Inr (start_dt, Some (combine d time_max))"
    using assms by (simp add: get_time_range_bounds_def parse_if_given_def combine_def)
next
  assume h: "length s = 10 \<and> parse_time_input (Str s) = Inr dt"
  then have "parse_if_given (Some (Str s)) = Inr (Some dt)"
    by (simp add: parse_if_given_parsed)
  with assms h show "get_time_range_bounds start (Some (Str s)) inclusive
      = Inr (start_dt, Some (combine (dt_date dt) time_max))"
    by (simp add: get_time_range_bounds_def)
next
  show "get_time_range_bounds start (Some (Datetime dt')) inclusive = Inr (start_dt, Some dt')"
    using assms by (simp add: get_time_range_bounds_def parse_if_given_def)
next
  assume "\<not> isl (strptime s' ''%Y-%m-%d %H:%M:%S'') \<or> \<not> isl (strptime s' ''%Y-%m-%d %H:%M'')"
  from time_string_parses [OF this] obtain p where p: "parse_time_input (Str s') = Inr p"
    and len: "12 \<le> length s'"
    and src: "strptime s' ''%Y-%m-%d %H:%M:%S'' = Inr p \<or> strptime s' ''%Y-%m-%d %H:%M'' = Inr p"
    by blast
  from p have "parse_if_given (Some (Str s')) = Inr (Some p)"
    by (rule parse_if_given_parsed)
  with assms len have "get_time_range_bounds start (Some (Str s')) inclusive = Inr (start_dt, Some p)"
    by (simp add: get_time_range_bounds_def)
  with p src show "\<exists>p. parse_time_input (Str s') = Inr p
      \<and> (strptime s' ''%Y-%m-%d %H:%M:%S'' = Inr p \<or> strptime s' ''%Y-%m-%d %H:%M'' = Inr p)
      \<and> get_time_range_bounds start (Some (Str s')) inclusive = Inr (start_dt, Some p)"
    by blast
qed

theorem end_bound_widening_witness:
  "parse_if_given None = Inr None
   \<and> get_time_range_bounds None (Some (Date \<lparr>year = 2024, month = 1, day = 31\<rparr>)) ''both''
       = Inr (None, Some (combine \<lparr>year = 2024, month = 1, day = 31\<rparr> time_max))
   \<and> length ''2024-01-31'' = 10
   \<and> get_time_range_bounds None (Some (Str ''2024-01-31'')) ''both''
       = Inr (None, Some (combine \<lparr>year = 2024, month = 1, day = 31\<rparr> time_max))
   \<and> \<not> isl (strptime ''2024-01-31 10:30:00'' ''%Y-%m-%d %H:%M:%S'')
   \<and> get_time_range_bounds None (Some (Str ''2024-01-31 10:30:00'')) ''both''
       = Inr (None, Some (combine \<lparr>year = 2024, month = 1, day = 31\<rparr>
                            \<lparr>hour = 10, minute = 30, second = 0, microsecond = 0\<rparr>))"
proof -
  have t: "\<not> isl (strptime ''2024-01-31 10:30:00'' ''%Y-%m-%d %H:%M:%S'')"
    by (simp add: strptime_2024_01_31_1030)
  have l: "length ''2024-01-31'' = 10" by simp
  have p: "parse_time_input (Str ''2024-01-31 10:30:00'')
      = Inr (combine \<lparr>year = 2024, month = 1, day = 31\<rparr>
               \<lparr>hour = 10, minute = 30, second = 0, microsecond = 0\<rparr>)"
    by (simp add: strptime_2024_01_31_1030)
  have d: "dt_date (combine \<lparr>year = 2024, month = 1, day = 31\<rparr> time_min)
      = \<lparr>year = 2024, month = 1, day = 31\<rparr>"
    by (simp add: combine_def)
  note w = end_bound_widening [OF parse_if_given_None,
      of "\<lparr>year = 2024, month = 1, day = 31\<rparr>" "''both''" "''2024-01-31''"
         "combine \<lparr>year = 2024, month = 1, day = 31\<rparr> time_min" _ "''2024-01-31 10:30:00''"]
  from w have w1: "get_time_range_bounds None (Some (Date \<lparr>year = 2024, month = 1, day = 31\<rparr>)) ''both''
       = Inr (None, Some (combine \<lparr>year = 2024, month = 1, day = 31\<rparr> time_max))"
    by blast
  from w l parse_2024_01_31 d have w2: "get_time_range_bounds None (Some (Str ''2024-01-31'')) ''both''
       = Inr (None, Some (combine \<lparr>year = 2024, month = 1, day = 31\<rparr> time_max))"
    by metis
  from w t p have w3: "get_time_range_bounds None (Some (Str ''2024-01-31 10:30:00'')) ''both''
       = Inr (None, Some (combine \<lparr>year = 2024, month = 1, day = 31\<rparr>
                            \<lparr>hour = 10, minute = 30, second = 0, microsecond = 0\<rparr>))"
    by (metis Inr_inject)
  from w1 w2 w3 t l parse_if_given_None show ?thesis by blast
qed

text \<open>
  C5: with both bounds parsed to \<open>a\<close> and \<open>b\<close> (the end after its widening, if any), the filter
  on \<open>field\<close> is \<open>{gte a, lte b}\<close> for \<open>both\<close>, \<open>{gte a, lt b}\<close> for \<open>start\<close>, \<open>{gt a, lte b}\<close> for
  \<open>end\<close> and \<open>{gt a, lt b}\<close> for \<open>neither\<close>; with the start omitted the filter holds the end
  operator alone, with the end omitted the start operator alone.
\<close>

theorem inclusive_mode_operators:
  "(get_time_range_bounds start end inclusive = Inr (Some a, Some b) \<longrightarrow>
      (inclusive = ''both'' \<longrightarrow>
         build_time_range_query field start end inclusive
           = Inr (Q ''range'' [(field, [(''gte'', datetime_isoformat a), (''lte'', datetime_isoformat b)])]))
      \<and> (inclusive = ''start'' \<longrightarrow>
         build_time_range_query field start end inclusive
           = Inr (Q ''range'' [(field, [(''gte'', datetime_isoformat a), (''lt'', datetime_isoformat b)])]))
      \<and> (inclusive = ''end'' \<longrightarrow>
         build_time_range_query field start end inclusive
           = Inr (Q ''range'' [(field, [(''gt'', datetime_isoformat a), (''lte'', datetime_isoformat b)])]))
      \<and> (inclusive = ''neither'' \<longrightarrow>
         build_time_range_query field start end inclusive
           = Inr (Q ''range'' [(field, [(''gt'', datetime_isoformat a), (''lt'', datetime_isoformat b)])])))
   \<and> (get_time_range_bounds None end inclusive = Inr (sd, Some b) \<longrightarrow>
        build_time_range_query field None end inclusive
          = Inr (Q ''range'' [(field, [(if inclusive \<in> {''both'', ''end''} then ''lte'' else ''lt'',
                                         datetime_isoformat b)])]))
   \<and> (get_time_range_bounds start None inclusive = Inr (Some a, ed) \<longrightarrow>
        build_time_range_query field start None inclusive
          = Inr (Q ''range'' [(field, [(if inclusive \<in> {''both'', ''start''} then ''gte'' else ''gt'',
                                         datetime_isoformat a)])]))"
proof (intro conjI impI)
  assume "get_time_range_bounds None end inclusive = Inr (sd, Some b)"
  moreover from this have "sd = None"
    using bounds_start [of None "end" inclusive sd "Some b"] by (simp add: parse_if_given_None)
  ultimately show "build_time_range_query field None end inclusive
      = Inr (Q ''range'' [(field, [(if inclusive \<in> {''both'', ''end''} then ''lte'' else ''lt'',
                                     datetime_isoformat b)])])"
    by (simp add: build_time_range_query_def)
next
  assume h: "get_time_range_bounds start None inclusive = Inr (Some a, ed)"
  then have "ed = None"
    by (auto simp: get_time_range_bounds_def parse_if_given_None split: sum.splits)
  with h show "build_time_range_query field start None inclusive
      = Inr (Q ''range'' [(field, [(if inclusive \<in> {''both'', ''start''} then ''gte'' else ''gt'',
                                     datetime_isoformat a)])])"
    by (simp add: build_time_range_query_def)
qed (simp_all add: build_time_range_query_def)

theorem inclusive_mode_operators_witness:
  "get_time_range_bounds (Some (Str ''2024-01-01'')) (Some (Str ''2024-01-31'')) ''both''
     = Inr (Some (combine \<lparr>year = 2024, month = 1, day = 1\<rparr> time_min),
            Some (combine \<lparr>year = 2024, month = 1, day = 31\<rparr> time_max))
   \<and> build_time_range_query ''timestamp'' (Some (Str ''2024-01-01'')) (Some (Str ''2024-01-31'')) ''both''
       = Inr (Q ''range'' [(''timestamp'', [(''gte'', ''2024-01-01T00:00:00''),
                                             (''lte'', ''2024-01-31T23:59:59.999999'')])])
   \<and> build_time_range_query ''timestamp'' (Some (Str ''2024-01-01'')) (Some (Str ''2024-01-31'')) ''start''
       = Inr (Q ''range'' [(''timestamp'', [(''gte'', ''2024-01-01T00:00:00''),
                                             (''lt'', ''2024-01-31T23:59:59.999999'')])])
   \<and> build_time_range_query ''timestamp'' (Some (Str ''2024-01-01'')) (Some (Str ''2024-01-31'')) ''end''
       = Inr (Q ''range'' [(''timestamp'', [(''gt'', ''2024-01-01T00:00:00''),
                                             (''lte'', ''2024-01-31T23:59:59.999999'')])])
   \<and> build_time_range_query ''timestamp'' (Some (Str ''2024-01-01'')) (Some (Str ''2024-01-31'')) ''neither''
       = Inr (Q ''range'' [(''timestamp'', [(''gt'', ''2024-01-01T00:00:00''),
                                             (''lt'', ''2024-01-31T23:59:59.999999'')])])
   \<and> get_time_range_bounds None (Some (Str ''2024-01-31'')) ''neither''
       = Inr (None, Some (combine \<lparr>year = 2024, month = 1, day = 31\<rparr> time_max))
   \<and> build_time_range_query ''timestamp'' None (Some (Str ''2024-01-31'')) ''neither''
       = Inr (Q ''range'' [(''timestamp'', [(''lt'', ''2024-01-31T23:59:59.999999'')])])
   \<and> get_time_range_bounds (Some (Str ''2024-01-01'')) None ''both''
       = Inr (Some (combine \<lparr>year = 2024, month = 1, day = 1\<rparr> time_min), None)
   \<and> build_time_range_query ''timestamp'' (Some (Str ''2024-01-01'')) None ''both''
       = Inr (Q ''range'' [(''timestamp'', [(''gte'', ''2024-01-01T00:00:00'')])])"
proof -
  have e: "get_time_range_bounds None (Some (Str ''2024-01-31'')) ''neither''
       = Inr (None, Some (combine \<lparr>year = 2024, month = 1, day = 31\<rparr> time_max))"
    by (simp add: get_time_range_bounds_def parse_if_given_def parse_2024_01_31 combine_def
        del: parse_time_input.simps)
  have s: "get_time_range_bounds (Some (Str ''2024-01-01'')) None ''both''
       = Inr (Some (combine \<lparr>year = 2024, month = 1, day = 1\<rparr> time_min), None)"
    by (simp add: get_time_range_bounds_def parse_if_given_def parse_2024_01_01
        del: parse_time_input.simps)
  let ?a = "combine \<lparr>year = 2024, month = 1, day = 1\<rparr> time_min"
  let ?b = "combine \<lparr>year = 2024, month = 1, day = 31\<rparr> time_max"
  have q1: "build_time_range_query ''timestamp'' (Some (Str ''2024-01-01'')) (Some (Str ''2024-01-31'')) ''both''
       = Inr (Q ''range'' [(''timestamp'', [(''gte'', datetime_isoformat ?a), (''lte'', datetime_isoformat ?b)])])"
    using inclusive_mode_operators [of "Some (Str ''2024-01-01'')" "Some (Str ''2024-01-31'')" "''both''"
        ?a ?b "''timestamp''"] bounds_2024_january [of "''both''"]
    by blast
  have q2: "build_time_range_query ''timestamp'' (Some (Str ''2024-01-01'')) (Some (Str ''2024-01-31'')) ''start''
       = Inr (Q ''range'' [(''timestamp'', [(''gte'', datetime_isoformat ?a), (''lt'', datetime_isoformat ?b)])])"
    using inclusive_mode_operators [of "Some (Str ''2024-01-01'')" "Some (Str ''2024-01-31'')" "''start''"
        ?a ?b "''timestamp''"] bounds_2024_january [of "''start''"]
    by blast
  have q3: "build_time_range_query ''timestamp'' (Some (Str ''2024-01-01'')) (Some (Str ''2024-01-31'')) ''end''
       = Inr (Q ''range'' [(''timestamp'', [(''gt'', datetime_isoformat ?a), (''lte'', datetime_isoformat ?b)])])"
    using inclusive_mode_operators [of "Some (Str ''2024-01-01'')" "Some (Str ''2024-01-31'')" "''end''"
        ?a ?b "''timestamp''"] bounds_2024_january [of "''end''"]
    by blast
  have q4: "build_time_range_query ''timestamp'' (Some (Str ''2024-01-01'')) (Some (Str ''2024-01-31'')) ''neither''
       = Inr (Q ''range'' [(''timestamp'', [(''gt'', datetime_isoformat ?a), (''lt'', datetime_isoformat ?b)])])"
    using inclusive_mode_operators [of "Some (Str ''2024-01-01'')" "Some (Str ''2024-01-31'')" "''neither''"
        ?a ?b "''timestamp''"] bounds_2024_january [of "''neither''"]
    by blast
  have q5: "build_time_range_query ''timestamp'' None (Some (Str ''2024-01-31'')) ''neither''
       = Inr (Q ''range'' [(''timestamp'', [(''lt'', datetime_isoformat ?b)])])"
    using inclusive_mode_operators [of _ "Some (Str ''2024-01-31'')" "''neither''" _ ?b "''timestamp''" None] e
    by simp
  have q6: "build_time_range_query ''timestamp'' (Some (Str ''2024-01-01'')) None ''both''
       = Inr (Q ''range'' [(''timestamp'', [(''gte'', datetime_isoformat ?a)])])"
    using inclusive_mode_operators [of "Some (Str ''2024-01-01'')" _ "''both''" ?a _ "''timestamp''" _ None] s
    by simp
  from q1 q2 q3 q4 q5 q6 bounds_2024_january [of "''both''"] e s show ?thesis
    by (simp only: isoformat_examples simp_thms)
qed

text \<open>
  C6: when every bound that is supplied is one \<open>parse_time_input\<close> parses, the builder raises
  the validation error exactly when neither bound is supplied, it raises nothing else, and
  with at least one bound it returns a range filter on \<open>field\<close> with at least one operator.
\<close>

theorem missing_bounds_validation:
  assumes "\<forall>x. start = Some x \<longrightarrow> \<not> isl (parse_time_input x)"
    and "\<forall>x. end = Some x \<longrightarrow> \<not> isl (parse_time_input x)"
  shows "(build_time_range_query field start end inclusive
            = Inl (ValueError ''At least one of start or end must be provided'')
          \<longleftrightarrow> start = None \<and> end = None)
         \<and> (isl (build_time_range_query field start end inclusive) \<longleftrightarrow> start = None \<and> end = None)
         \<and> (start \<noteq> None \<or> end \<noteq> None \<longrightarrow>
              (\<exists>params. build_time_range_query field start end inclusive
                          = Inr (Q ''range'' [(field, params)]) \<and> params \<noteq> []))"
proof -
  have given: "\<exists>dt. parse_if_given b = Inr dt \<and> (dt = None \<longleftrightarrow> b = None)"
    if "\<forall>x. b = Some x \<longrightarrow> \<not> isl (parse_time_input x)" for b
  proof (cases b)
    case None
    then show ?thesis by (simp add: parse_if_given_None)
  next
    case (Some x)
    with that obtain dt where "parse_time_input x = Inr dt"
      by (cases "parse_time_input x") auto
    with Some show ?thesis by (simp add: parse_if_given_parsed)
  qed
  from given [OF assms(1)] obtain sd where sd: "parse_if_given start = Inr sd"
    and sdn: "sd = None \<longleftrightarrow> start = None" by blast
  from given [OF assms(2)] obtain ed where ed: "parse_if_given end = Inr ed"
    and edn: "ed = None \<longleftrightarrow> end = None" by blast
  from bounds_result [OF sd ed, of inclusive] obtain ed'
    where b: "get_time_range_bounds start end inclusive = Inr (sd, ed')"
      and edn': "ed' = None \<longleftrightarrow> ed = None" by blast
  show ?thesis
  proof (cases "start = None \<and> end = None")
    case True
    with sdn edn edn' have "sd = None" "ed' = None" by simp_all
    with b True show ?thesis by (simp add: build_time_range_query_def)
  next
    case False
    with sdn edn edn' have "sd \<noteq> None \<or> ed' \<noteq> None" by simp
    with b have "\<exists>params. build_time_range_query field start end inclusive
        = Inr (Q ''range'' [(field, params)]) \<and> params \<noteq> []"
      by (auto simp: build_time_range_query_def split: if_splits)
    with False show ?thesis by auto
  qed
qed

theorem missing_bounds_validation_witness:
  "\<not> isl (parse_time_input (Str ''2024-01-01''))
   \<and> \<not> isl (build_time_range_query ''timestamp'' (Some (Str ''2024-01-01'')) None ''both'')
   \<and> build_time_range_query ''timestamp'' None None ''both''
       = Inl (ValueError ''At least one of start or end must be provided'')"
proof -
  have p: "\<not> isl (parse_time_input (Str ''2024-01-01''))"
    using parse_2024_01_01 by (simp del: parse_time_input.simps)
  then have a: "\<forall>x. Some (Str ''2024-01-01'') = Some x \<longrightarrow> \<not> isl (parse_time_input x)"
    by (simp del: parse_time_input.simps)
  have b: "\<forall>x. (None :: time_input option) = Some x \<longrightarrow> \<not> isl (parse_time_input x)"
    by simp
  from missing_bounds_validation [OF a b, of "''timestamp''" "''both''"]
    missing_bounds_validation [OF b b, of "''timestamp''" "''both''"] p
  show ?thesis by blast
qed

text \<open>
  C9: with both bounds the empty string, \<open>get_time_range_bounds\<close> returns \<open>(None, None)\<close> and
  the builder raises the missing-bounds error; the parser, which would have raised
  \<open>Unable to parse time string\<close> on the empty string, is not asked.
\<close>

theorem empty_string_bounds_are_absent:
  "get_time_range_bounds (Some (Str '''')) (Some (Str '''')) inclusive = Inr (None, None)
   \<and> build_time_range_query field (Some (Str '''')) (Some (Str '''')) inclusive
       = Inl (ValueError ''At least one of start or end must be provided'')
   \<and> parse_time_input (Str '''') = Inl (ValueError ''Unable to parse time string: '')"
  by (simp add: build_time_range_query_def get_time_range_bounds_def parse_if_given_def
      strptime_empty)

theorem empty_string_bounds_are_absent_witness:
  "get_time_range_bounds (Some (Str '''')) (Some (Str '''')) ''both'' = Inr (None, None)
   \<and> build_time_range_query ''timestamp'' (Some (Str '''')) (Some (Str '''')) ''both''
       = Inl (ValueError ''At least one of start or end must be provided'')"
  using empty_string_bounds_are_absent [of "''both''" "''timestamp''"] by blast


section \<open>Properties of the date normalizer\<close>

lemma parse_date_string_not_text:
  "parse_date_string env NotStr return_iso include_microseconds = Inr None"
  "parse_date_string env (DStr '''') return_iso include_microseconds = Inr None"
  by (simp_all add: parse_date_string_def)

text \<open>
  When the relative step finds nothing and each of the two attempts ends in an exception the
  \<open>except\<close> clause names, the result is \<open>None\<close>.
\<close>

lemma parse_date_string_absent:
  assumes "parse_relative_date env (strip raw) = Inr None"
    and "parser_parse env (strip raw) False = Inl e1" and "caught e1"
    and "parser_parse env (strip raw) True = Inl e2" and "caught e2"
  shows "parse_date_string env (DStr raw) return_iso include_microseconds = Inr None"
  using assms by (simp add: parse_date_string_def Let_def)

text \<open>The relative step returns \<open>None\<close> exactly when the table is built and nothing matches.\<close>

lemma first_match_None:
  "first_match ps s = Inr None \<longleftrightarrow>
     (\<forall>(pat, func) \<in> set ps. \<forall>left g. re_search pat s = Some (left, g) \<longrightarrow> False)"
proof (induction ps)
  case Nil
  then show ?case by simp
next
  case (Cons p ps)
  obtain pat func where p: "p = (pat, func)" by (cases p)
  show ?case
  proof (cases "re_search pat s")
    case None
    with p Cons.IH show ?thesis by simp
  next
    case (Some m)
    obtain left g where "m = (left, g)" by (cases m)
    with Some p show ?thesis
      by (cases "func (int_of_str (group g ''1''))") auto
  qed
qed

lemma parse_relative_date_None:
  "parse_relative_date env s = Inr None \<longleftrightarrow>
     (\<exists>table. relative_dates env = Inr table \<and> map_of table (lower s) = None
        \<and> (\<forall>(pat, func) \<in> set (patterns env). re_search pat (lower s) = None))"
proof -
  have "(\<forall>left g. re_search pat t = Some (left, g) \<longrightarrow> False) \<longleftrightarrow> re_search pat t = None" for pat t
    by (cases "re_search pat t") auto
  then show ?thesis
    by (auto simp: parse_relative_date_def Let_def first_match_None
        split: sum.splits option.splits)
qed

lemma lower_99999999999: "lower ''99999999999'' = ''99999999999''"
  by (simp add: lower_def lower_char_def)

lemma relative_step_99999999999:
  "parse_relative_date overflowing_dateutil (strip ''99999999999'') = Inr None"
proof -
  have s: "strip ''99999999999'' = ''99999999999''"
    by (simp add: strip_def is_space_def)
  have t: "\<exists>table. relative_dates overflowing_dateutil = Inr table
             \<and> map_of table ''99999999999'' = None"
    by (simp add: relative_dates_def overflowing_dateutil_def)
  have p: "\<forall>(pat, func) \<in> set (patterns overflowing_dateutil). re_search pat ''99999999999'' = None"
    by (simp add: patterns_def ago_pattern_def in_pattern_def literal_def re_match_def
        is_digit_def is_space_def)
  from t p show ?thesis
    unfolding s parse_relative_date_None lower_99999999999 by blast
qed

text \<open>
  C7 at the input \<open>99999999999\<close>: a non-empty string on which the relative step finds nothing.
  Whenever the first attempt of the parser raises an exception outside the \<open>except\<close> clause,
  \<open>parse_date_string\<close> raises it; the claim and the function's docstring promise \<open>None\<close>.
\<close>

theorem parse_date_string_raises_uncaught:
  assumes "raw \<noteq> []"
    and "parse_relative_date env (strip raw) = Inr None"
    and "parser_parse env (strip raw) False = Inl e"
    and "\<not> caught e"
  shows "parse_date_string env (DStr raw) return_iso include_microseconds = Inl e"
  using assms by (simp add: parse_date_string_def Let_def)

theorem parse_date_string_raises_uncaught_witness:
  "parse_date_string overflowing_dateutil (DStr ''99999999999'') False True
     = Inl (OverflowError ''signed integer is greater than maximum'')"
proof -
  have a: "''99999999999'' \<noteq> []" by simp
  have s: "strip ''99999999999'' = ''99999999999''"
    by (simp add: strip_def is_space_def)
  have b: "parser_parse overflowing_dateutil (strip ''99999999999'') False
             = Inl (OverflowError ''signed integer is greater than maximum'')"
    unfolding s by (simp add: overflowing_dateutil_def)
  have c: "\<not> caught (OverflowError ''signed integer is greater than maximum'')" by simp
  from parse_date_string_raises_uncaught [OF a relative_step_99999999999 b c]
  show ?thesis .
qed


section \<open>Properties of the logging facade\<close>

subsection \<open>Print redirection\<close>

text \<open>
  C8: \<open>restore_print\<close> on a manager that has not redirected \<open>print\<close> changes neither the
  manager (its flag included) nor the process (its \<open>print\<close> included); \<open>_redirect_print\<close> on a
  manager that has redirected changes nothing either; and each of the two, done twice, is
  the same as done once.
\<close>

theorem print_redirection_idempotent:
  "(\<not> print_redirected m \<longrightarrow> restore_print (m, p) = (m, p))
   \<and> (print_redirected m \<longrightarrow> redirect_print (m, p) = (m, p))
   \<and> restore_print (restore_print (m, p)) = restore_print (m, p)
   \<and> redirect_print (redirect_print (m, p)) = redirect_print (m, p)"
  by (simp add: restore_print_def redirect_print_def)

lemma started_not_redirected:
  "print_redirected (fst started) = False" "builtins_print (snd started) = OriginalPrint"
  by (simp_all add: started_def init_def setup_logger_def default_options_def fresh_process_def
      logger_add_def logger_remove_all_def setup_exception_logging_def Let_def)

lemma started_redirected:
  "print_redirected (fst (redirect_print started)) = True"
  "builtins_print (snd (redirect_print started)) = CustomPrint"
  using started_not_redirected
  by (simp_all add: redirect_print_def split_beta)

theorem print_redirection_idempotent_witness:
  "print_redirected (fst started) = False
   \<and> builtins_print (snd started) = OriginalPrint
   \<and> restore_print started = started
   \<and> print_redirected (fst (redirect_print started)) = True
   \<and> builtins_print (snd (redirect_print started)) = CustomPrint
   \<and> redirect_print (redirect_print started) = redirect_print started
   \<and> restore_print (restore_print (redirect_print started)) = restore_print (redirect_print started)"
  using print_redirection_idempotent [of "fst started" "snd started"]
    print_redirection_idempotent [of "fst (redirect_print started)" "snd (redirect_print started)"]
    started_not_redirected started_redirected
  by simp

subsection \<open>Removing a sink that is gone\<close>

lemma remove_tolerant_count: "handlers_count (remove_tolerant ids c) = handlers_count c"
  by (induction ids arbitrary: c) (auto simp: logger_remove_def split: sum.splits if_splits)

lemma remove_tolerant_subset:
  "fst ` set (handlers (remove_tolerant ids c)) \<subseteq> fst ` set (handlers c)"
proof (induction ids arbitrary: c)
  case Nil
  then show ?case by simp
next
  case (Cons i ids)
  show ?case
  proof (cases "logger_remove i c")
    case (Inl e)
    with Cons.IH [of c] show ?thesis by simp
  next
    case (Inr c')
    then have "fst ` set (handlers c') \<subseteq> fst ` set (handlers c)"
      by (auto simp: logger_remove_def split: if_splits)
    with Cons.IH [of c'] Inr show ?thesis by auto
  qed
qed

lemma add_extra_handlers_ids:
  assumes "add_extra_handlers f hs c = (hs', ids, c')"
  shows "handlers_count c \<le> handlers_count c'
         \<and> (\<forall>i \<in> fst ` set (handlers c'). i \<in> fst ` set (handlers c) \<or> handlers_count c \<le> i)"
  using assms
proof (induction hs arbitrary: c hs' ids c')
  case Nil
  then show ?case by simp
next
  case (Cons h hs)
  obtain i c1 where a: "logger_add (with_filter f h) c = (i, c1)"
    by (cases "logger_add (with_filter f h) c")
  obtain hs1 ids1 c2 where r: "add_extra_handlers f hs c1 = (hs1, ids1, c2)"
    by (cases "add_extra_handlers f hs c1")
  from Cons.prems a r have c': "c' = c2" by simp
  from a have c1: "handlers_count c1 = Suc (handlers_count c)"
    "fst ` set (handlers c1) = insert (handlers_count c) (fst ` set (handlers c))"
    by (auto simp: logger_add_def)
  from Cons.IH [OF r] c1 c' show ?case by auto
qed

text \<open>After \<open>set_filter\<close> every sink of the backend has a number the counter had not reached.\<close>

lemma set_filter_fresh_numbers:
  "\<forall>i \<in> fst ` set (handlers (core (snd (set_filter f (m, p))))). handlers_count (core p) \<le> i"
proof -
  obtain m1 p1 where cl: "cleanup (m\<lparr>filter_func := f\<rparr>, p) = (m1, p1)"
    by (cases "cleanup (m\<lparr>filter_func := f\<rparr>, p)")
  then have n1: "handlers_count (core p1) = handlers_count (core p)"
    by (auto simp: cleanup_def restore_print_def remove_tolerant_count split: if_splits)
  let ?c0 = "logger_remove_all (core p1)"
  obtain hs' ids c3 where ex:
    "add_extra_handlers (filter_func m1) (extra_handlers m1)
       (snd (logger_add (file_sink m1) (snd (logger_add (console_sink m1) ?c0)))) = (hs', ids, c3)"
    by (cases "add_extra_handlers (filter_func m1) (extra_handlers m1)
       (snd (logger_add (file_sink m1) (snd (logger_add (console_sink m1) ?c0))))")
  from add_extra_handlers_ids [OF ex] n1
  have fresh: "\<forall>i \<in> fst ` set (handlers c3). handlers_count (core p) \<le> i"
    by (auto simp: logger_add_def logger_remove_all_def)
  have "core (snd (setup_logger (m1, p1))) = c3"
    using ex
    by (simp add: setup_logger_def Let_def split_beta redirect_print_def
        setup_exception_logging_def)
  with fresh cl show ?thesis by (simp add: set_filter_def)
qed

lemma started_sinks:
  "map fst (handlers (core (snd started))) = [1, 2]" "handler_ids (fst started) = [1, 2]"
  "handlers_count (core (snd started)) = 3" "filter_func (fst started) = None"
  "extra_handlers (fst started) = []" "print_redirected (fst started) = False"
  "enable_print_redirect (fst started) = False"
  by (simp_all add: started_def init_def setup_logger_def default_options_def fresh_process_def
      logger_add_def logger_remove_all_def setup_exception_logging_def Let_def)

lemma audit_sink_number:
  "fst with_audit_sink = 3" "handlers_count (core (snd (snd with_audit_sink))) = 4"
  "map fst (handlers (core (snd (snd with_audit_sink)))) = [1, 2, 3]"
  using started_sinks
  by (simp_all add: with_audit_sink_def add_handler_def logger_add_def split_beta Let_def)

lemma remove_handler_absent:
  assumes "handler_id \<notin> fst ` set (handlers (core p))"
  shows "remove_handler handler_id (m, p)
           = Inl (ValueError (''There is no existing handler with id '' @ str_nat handler_id))"
  using assms by (simp add: remove_handler_def logger_remove_def)

text \<open>
  So it is for every number issued before a \<open>set_filter\<close>, and for a second removal of the
  same number.
\<close>

lemma remove_handler_after_set_filter:
  assumes "handler_id < handlers_count (core p)"
  shows "remove_handler handler_id (set_filter f (m, p))
           = Inl (ValueError (''There is no existing handler with id '' @ str_nat handler_id))"
proof -
  from set_filter_fresh_numbers [of f m p] assms
  have "handler_id \<notin> fst ` set (handlers (core (snd (set_filter f (m, p)))))"
    by (meson not_le)
  from remove_handler_absent [OF this, of "fst (set_filter f (m, p))"]
  show ?thesis by simp
qed

lemma remove_handler_twice:
  assumes "remove_handler handler_id s = Inr s'"
  shows "remove_handler handler_id s'
           = Inl (ValueError (''There is no existing handler with id '' @ str_nat handler_id))"
proof -
  obtain m p where s: "s = (m, p)" by (cases s)
  obtain m' p' where s': "s' = (m', p')" by (cases s')
  from assms s s' have "handler_id \<notin> fst ` set (handlers (core p'))"
    by (auto simp: remove_handler_def logger_remove_def split: if_splits)
  with s' show ?thesis by (simp add: remove_handler_absent)
qed

text \<open>
  C1: whenever the backend no longer has a sink of the given number, \<open>remove_handler\<close> raises
  the backend's \<open>ValueError\<close>; it is not a no-op. The claim, like the facade's own \<open>cleanup\<close>
  and the membership test that follows in \<open>remove_handler\<close> itself, expects the call to pass
  silently.
\<close>

theorem remove_handler_gone_raises:
  assumes "handler_id \<notin> fst ` set (handlers (core p))"
  shows "remove_handler handler_id (m, p)
           = Inl (ValueError (''There is no existing handler with id '' @ str_nat handler_id))"
  using assms by (rule remove_handler_absent)

theorem remove_handler_gone_raises_witness:
  "fst with_audit_sink = 3
   \<and> 3 \<notin> fst ` set (handlers (core (snd after_set_filter)))
   \<and> remove_handler 3 after_set_filter = Inl (ValueError ''There is no existing handler with id 3'')"
proof -
  have lt: "(3::nat) < handlers_count (core (snd (snd with_audit_sink)))"
    by (simp add: audit_sink_number)
  have gone: "3 \<notin> fst ` set (handlers (core (snd after_set_filter)))"
    using set_filter_fresh_numbers [of "Some ''no_password_filter''" "fst (snd with_audit_sink)"
        "snd (snd with_audit_sink)"] audit_sink_number(2)
    by (auto simp: after_set_filter_def)
  have str: "str_nat 3 = ''3''"
    by (simp add: str_nat.simps digit_char_def)
  from remove_handler_gone_raises [OF gone, of "fst after_set_filter"] str audit_sink_number(1) gone
  show ?thesis by simp
qed


section \<open>Properties of the scheduler facade\<close>

lemma add_job_wrapper:
  assumes "add_job mgr func trigger options fresh_id = Inr (job, mgr', logs)"
  shows "job_func job = logged_job_wrapper (job_name job) (fn_call func)"
  using assms by (auto simp: add_job_def Let_def split: option.splits)

lemma exiting_registration_done: "\<not> isl exiting_registration"
  by (simp add: exiting_registration_def add_job_def running_manager_def exiting_job_def Let_def)

text \<open>
  C3, as stated, at a job that calls \<open>sys.exit()\<close>: the invocation raises \<open>SystemExit\<close>, the
  wrapper lets it through to the backend, and the wrapper's log holds no record of it; the
  claim has every raised exception logged before it is re-raised.
\<close>

theorem logged_job_wrapper_system_exit_counterexample:
  "\<not> isl exiting_registration
   \<and> fn_call exiting_job () = Raises (BaseExc ''SystemExit'')
   \<and> snd (job_func (fst (projr exiting_registration)) ()) = Raises (BaseExc ''SystemExit'')
   \<and> \<not> logs_exception (fst (job_func (fst (projr exiting_registration)) ())) (BaseExc ''SystemExit'')"
  by (simp add: exiting_registration_def add_job_def running_manager_def exiting_job_def
      logged_job_wrapper_def logs_exception_def get_task_logger_def Let_def)

text \<open>
  C3, amended: for every callable registered through \<open>add_job\<close>, an invocation of the installed
  wrapper ends as the invocation of the callable does: the same exception raised, none
  swallowed, or the same result returned. An exception that is an instance of \<open>Exception\<close> is
  logged by the wrapper, after the start record, before it is re-raised; an exception outside
  \<open>Exception\<close> (\<open>SystemExit\<close>, \<open>KeyboardInterrupt\<close>, \<open>GeneratorExit\<close>) passes without a record
  of the wrapper; a normal return is logged as success.
\<close>

theorem logged_job_wrapper_propagates:
  assumes "add_job mgr func trigger options fresh_id = Inr (job, mgr', logs)"
  shows "snd (job_func job ()) = fn_call func ()
         \<and> (fn_call func () = Raises (Exc e) \<longrightarrow>
              fst (job_func job ())
                = [get_task_logger (job_name job) Info (''Starting scheduled task: '' @ job_name job) None,
                   get_task_logger (job_name job) Error (''Error in scheduled task: '' @ job_name job)
                     (Some (Exc e))]
              \<and> logs_exception (fst (job_func job ())) (Exc e))
         \<and> (fn_call func () = Raises (BaseExc b) \<longrightarrow>
              fst (job_func job ())
                = [get_task_logger (job_name job) Info (''Starting scheduled task: '' @ job_name job) None])
         \<and> (fn_call func () = Returns r \<longrightarrow>
              fst (job_func job ())
                = [get_task_logger (job_name job) Info (''Starting scheduled task: '' @ job_name job) None,
                   get_task_logger (job_name job) Success (''Completed scheduled task: '' @ job_name job)
                     None])"
proof -
  have w: "job_func job = logged_job_wrapper (job_name job) (fn_call func)"
    using assms by (rule add_job_wrapper)
  show ?thesis
  proof (cases "fn_call func ()")
    case (Returns x)
    then show ?thesis by (simp add: w logged_job_wrapper_def Let_def)
  next
    case (Raises x)
    then show ?thesis
      by (cases x) (simp_all add: w logged_job_wrapper_def logs_exception_def get_task_logger_def Let_def)
  qed
qed

lemma failing_registration:
  "add_job running_manager failing_job ''interval'' [(''name'', ''refresh'')] ''job-2''
     = Inr (\<lparr>job_id = ''job-2'', job_name = ''refresh'', job_trigger = ''interval'',
              job_func = logged_job_wrapper ''refresh'' (fn_call failing_job)\<rparr>,
            running_manager\<lparr>scheduler := Some
              [\<lparr>job_id = ''job-2'', job_name = ''refresh'', job_trigger = ''interval'',
                job_func = logged_job_wrapper ''refresh'' (fn_call failing_job)\<rparr>]\<rparr>,
            [(Info, ''Added scheduled job: refresh'')])"
  by (simp add: add_job_def running_manager_def failing_job_def Let_def)

lemma counting_registration:
  "add_job running_manager counting_job ''cron'' [] ''job-3''
     = Inr (\<lparr>job_id = ''job-3'', job_name = ''count_rows'', job_trigger = ''cron'',
              job_func = logged_job_wrapper ''count_rows'' (fn_call counting_job)\<rparr>,
            running_manager\<lparr>scheduler := Some
              [\<lparr>job_id = ''job-3'', job_name = ''count_rows'', job_trigger = ''cron'',
                job_func = logged_job_wrapper ''count_rows'' (fn_call counting_job)\<rparr>]\<rparr>,
            [(Info, ''Added scheduled job: count_rows'')])"
  by (simp add: add_job_def running_manager_def counting_job_def Let_def)

lemma exiting_registration_value:
  "add_job running_manager exiting_job ''interval'' [] ''job-1''
     = Inr (\<lparr>job_id = ''job-1'', job_name = ''shutdown_worker'', job_trigger = ''interval'',
              job_func = logged_job_wrapper ''shutdown_worker'' (fn_call exiting_job)\<rparr>,
            running_manager\<lparr>scheduler := Some
              [\<lparr>job_id = ''job-1'', job_name = ''shutdown_worker'', job_trigger = ''interval'',
                job_func = logged_job_wrapper ''shutdown_worker'' (fn_call exiting_job)\<rparr>]\<rparr>,
            [(Info, ''Added scheduled job: shutdown_worker'')])"
  by (simp add: add_job_def running_manager_def exiting_job_def Let_def)

theorem logged_job_wrapper_propagates_witness:
  "fn_call failing_job () = Raises (Exc ''ValueError'')
   \<and> logged_job_wrapper ''refresh'' (fn_call failing_job) ()
       = ([get_task_logger ''refresh'' Info ''Starting scheduled task: refresh'' None,
           get_task_logger ''refresh'' Error ''Error in scheduled task: refresh'' (Some (Exc ''ValueError''))],
          Raises (Exc ''ValueError''))
   \<and> fn_call counting_job () = Returns 42
   \<and> logged_job_wrapper ''count_rows'' (fn_call counting_job) ()
       = ([get_task_logger ''count_rows'' Info ''Starting scheduled task: count_rows'' None,
           get_task_logger ''count_rows'' Success ''Completed scheduled task: count_rows'' None],
          Returns 42)
   \<and> fn_call exiting_job () = Raises (BaseExc ''SystemExit'')
   \<and> logged_job_wrapper ''shutdown_worker'' (fn_call exiting_job) ()
       = ([get_task_logger ''shutdown_worker'' Info ''Starting scheduled task: shutdown_worker'' None],
          Raises (BaseExc ''SystemExit''))"
proof -
  have f: "fn_call failing_job () = Raises (Exc ''ValueError'')"
    by (simp add: failing_job_def)
  have c: "fn_call counting_job () = Returns 42"
    by (simp add: counting_job_def)
  have x: "fn_call exiting_job () = Raises (BaseExc ''SystemExit'')"
    by (simp add: exiting_job_def)
  from logged_job_wrapper_propagates [OF failing_registration, of "''ValueError''"] f
  have 1: "logged_job_wrapper ''refresh'' (fn_call failing_job) ()
       = ([get_task_logger ''refresh'' Info ''Starting scheduled task: refresh'' None,
           get_task_logger ''refresh'' Error ''Error in scheduled task: refresh'' (Some (Exc ''ValueError''))],
          Raises (Exc ''ValueError''))"
    by (simp add: prod_eq_iff)
  from logged_job_wrapper_propagates [OF counting_registration, of _ _ 42] c
  have 2: "logged_job_wrapper ''count_rows'' (fn_call counting_job) ()
       = ([get_task_logger ''count_rows'' Info ''Starting scheduled task: count_rows'' None,
           get_task_logger ''count_rows'' Success ''Completed scheduled task: count_rows'' None],
          Returns 42)"
    by (simp add: prod_eq_iff)
  from logged_job_wrapper_propagates [OF exiting_registration_value, of _ "''SystemExit''"] x
  have 3: "logged_job_wrapper ''shutdown_worker'' (fn_call exiting_job) ()
       = ([get_task_logger ''shutdown_worker'' Info ''Starting scheduled task: shutdown_worker'' None],
          Raises (BaseExc ''SystemExit''))"
    by (simp add: prod_eq_iff)
  from f c x 1 2 3 show ?thesis by blast
qed


end
